theory Spec2Isabelle
  imports Main "HOL-Library.AList"
begin

section \<open>Strings\<close>

text \<open>
  Go's \<^verbatim>\<open>strings.Split(s, sep)\<close> for a separator of one byte: the pieces between the
  occurrences of the separator, so an input with \<open>n\<close> separators gives \<open>n + 1\<close> pieces and
  the empty string gives one empty piece.
\<close>

fun Split :: "string \<Rightarrow> char \<Rightarrow> string list" where
  "Split [] sep = [[]]"
| "Split (c # cs) sep =
     (if c = sep then [] # Split cs sep
      else (case Split cs sep of [] \<Rightarrow> [[c]] | w # ws \<Rightarrow> (c # w) # ws))"

text \<open>\<^verbatim>\<open>strings.HasPrefix(s, prefix)\<close>.\<close>

definition HasPrefix :: "string \<Rightarrow> string \<Rightarrow> bool" where
  "HasPrefix s p = (take (length p) s = p)"

text \<open>\<^verbatim>\<open>strings.Join(parts, sep)\<close>.\<close>

fun Join :: "string list \<Rightarrow> string \<Rightarrow> string" where
  "Join [] sep = []"
| "Join [p] sep = p"
| "Join (p # q # ps) sep = p @ sep @ Join (q # ps) sep"

section \<open>Go maps\<close>

text \<open>
  A Go \<^verbatim>\<open>map[string]T\<close> is an association list whose keys are pairwise different:
  \<open>map_of\<close> is the lookup, \<open>AList.update\<close> the assignment \<^verbatim>\<open>m[k] = v\<close> (overwriting an
  existing key), \<open>length\<close> is \<^verbatim>\<open>len(m)\<close>, and a \<^verbatim>\<open>range\<close> loop visits the list. The
  order of the list stands for the unspecified iteration order.
\<close>

type_synonym 'v gomap = "(string \<times> 'v) list"

definition wf_map :: "'v gomap \<Rightarrow> bool" where
  "wf_map m = distinct (map fst m)"

text \<open>Indexing a \<^verbatim>\<open>map[string]string\<close>: the zero value \<^verbatim>\<open>""\<close> for a missing key.\<close>

definition index0 :: "string gomap \<Rightarrow> string \<Rightarrow> string" where
  "index0 m k = (case map_of m k of None \<Rightarrow> [] | Some v \<Rightarrow> v)"

section \<open>The outside world: processes, the bus, the error decoder\<close>

type_synonym encodedString = string

text \<open>
  An \<^verbatim>\<open>error\<close> value: the structured error that \<^verbatim>\<open>unpackError\<close> decodes from a
  script's stderr (kept as the document it was decoded from), the generic execution
  error wrapping the raw stderr text, and an error made by \<^verbatim>\<open>errors.New\<close> or handed
  back by a collaborator (the bus, the instance-file loader).
\<close>

datatype error = MgmtError string | ExecError string | ErrorString string

text \<open>
  What \<^verbatim>\<open>exec.Command(args[0], args[1:]...)\<close> is given before \<^verbatim>\<open>cmd.Output()\<close> runs
  it: the argument vector, \<^verbatim>\<open>cmd.Env\<close>, and \<^verbatim>\<open>cmd.Stdin\<close> (\<open>None\<close> where the source
  leaves it unset).
\<close>

record invocation =
  argv :: "string list"
  environ :: "string list"
  stdin :: "encodedString option"

text \<open>
  The outcome of one \<^verbatim>\<open>cmd.Output()\<close>: the process exited with a status, having written
  stdout and stderr, or it could not be started at all.
\<close>

datatype proc_result = Exited nat encodedString string | NotStarted

datatype event = Spawn invocation | BusRun nat | BusStop nat

text \<open>
  The environment of the daemon. Each answer may depend on everything that happened
  before (the trace of events), so the same command may succeed once and fail later.
  \<open>json_decodes\<close> says whether \<^verbatim>\<open>json.Unmarshal\<close> accepts a stderr text as a
  structured error document.
\<close>

record env =
  proc :: "event list \<Rightarrow> invocation \<Rightarrow> proc_result"
  bus_run :: "event list \<Rightarrow> nat \<Rightarrow> error option"
  bus_stop :: "event list \<Rightarrow> nat \<Rightarrow> error option"
  json_decodes :: "string \<Rightarrow> bool"

text \<open>
  \<^verbatim>\<open>cmd.Output()\<close> with \<^verbatim>\<open>cmd.Stderr\<close> set to a buffer: the captured stdout, whether
  the returned \<^verbatim>\<open>err\<close> is non-nil (a nonzero exit status or a process that did not
  start), and the buffer's content. The attempt is appended to the trace.
\<close>

definition Output ::
  "env \<Rightarrow> invocation \<Rightarrow> event list \<Rightarrow> (encodedString \<times> bool \<times> string) \<times> event list" where
  "Output e cmd tr =
     (case proc e tr cmd of
        Exited n out errtxt \<Rightarrow> ((out, n \<noteq> 0, errtxt), tr @ [Spawn cmd])
      | NotStarted \<Rightarrow> (([], True, []), tr @ [Spawn cmd]))"

definition genEnvironment :: "string \<Rightarrow> string \<Rightarrow> string \<Rightarrow> string list" where
  "genEnvironment compName modelName operation =
     [''VCI_COMPONENT_NAME='' @ compName,
      ''VCI_MODEL_NAME='' @ modelName,
      ''EPHEMERA_MESSAGE='' @ operation]"

definition unpackError :: "env \<Rightarrow> string \<Rightarrow> error" where
  "unpackError e stdErr =
     (if json_decodes e stdErr then MgmtError stdErr else ExecError stdErr)"

section \<open>Config, State and RPC of a model\<close>

record config =
  c_compName :: string
  c_modelName :: string
  c_get :: string
  c_set :: string
  c_check :: string

record state =
  s_compName :: string
  s_modelName :: string
  s_get :: string

record rpc =
  r_compName :: string
  r_modelName :: string
  r_modules :: "string gomap gomap"

definition config_Get :: "env \<Rightarrow> config \<Rightarrow> event list \<Rightarrow> encodedString \<times> event list" where
  "config_Get e c tr =
     (if c_get c = [] then ([], tr)
      else
        let getArgs = Split (c_get c) CHR '' '';
            cmd = \<lparr>argv = getArgs,
                   environ = genEnvironment (c_compName c) (c_modelName c) ''Config/Get'',
                   stdin = None\<rparr>;
            ((buf, failed, stdErr), tr') = Output e cmd tr
        in if failed then ([], tr') else (buf, tr'))"

definition config_Set ::
  "env \<Rightarrow> config \<Rightarrow> encodedString \<Rightarrow> event list \<Rightarrow> error option \<times> event list" where
  "config_Set e c inp tr =
     (if c_set c = [] then (None, tr)
      else
        let setArgs = Split (c_set c) CHR '' '';
            cmd = \<lparr>argv = setArgs,
                   environ = genEnvironment (c_compName c) (c_modelName c) ''Config/Set'',
                   stdin = Some inp\<rparr>;
            ((out, failed, stdErr), tr') = Output e cmd tr
        in if failed then (Some (unpackError e stdErr), tr') else (None, tr'))"

definition config_Check ::
  "env \<Rightarrow> config \<Rightarrow> encodedString \<Rightarrow> event list \<Rightarrow> error option \<times> event list" where
  "config_Check e c inp tr =
     (if c_check c = [] then (None, tr)
      else
        let checkArgs = Split (c_check c) CHR '' '';
            cmd = \<lparr>argv = checkArgs,
                   environ = genEnvironment (c_compName c) (c_modelName c) ''Config/Check'',
                   stdin = Some inp\<rparr>;
            ((out, failed, stdErr), tr') = Output e cmd tr
        in if failed then (Some (unpackError e stdErr), tr') else (None, tr'))"

definition state_Get :: "env \<Rightarrow> state \<Rightarrow> event list \<Rightarrow> encodedString \<times> event list" where
  "state_Get e c tr =
     (if s_get c = [] then ([], tr)
      else
        let getArgs = Split (s_get c) CHR '' '';
            cmd = \<lparr>argv = getArgs,
                   environ = genEnvironment (s_compName c) (s_modelName c) ''State/Get'',
                   stdin = None\<rparr>;
            ((buf, failed, stdErr), tr') = Output e cmd tr
        in if failed then ([], tr') else (buf, tr'))"

text \<open>
  The handler that \<^verbatim>\<open>genRpc(module, name, rpc)\<close> returns: a function of the request
  payload alone. It has no test for an empty command line.
\<close>

definition genRpc ::
  "env \<Rightarrow> rpc \<Rightarrow> string \<Rightarrow> string \<Rightarrow> string \<Rightarrow> encodedString \<Rightarrow> event list
     \<Rightarrow> (encodedString \<times> error option) \<times> event list" where
  "genRpc e r module name command inp tr =
     (let args = Split command CHR '' '';
          cmd = \<lparr>argv = args,
                 environ = genEnvironment (r_compName r) (r_modelName r)
                             (Join [''RPC'', module, name] ''/''),
                 stdin = Some inp\<rparr>;
          ((out, failed, stdErr), tr') = Output e cmd tr
      in if failed then (([], Some (unpackError e stdErr)), tr') else ((out, None), tr'))"

text \<open>
  \<^verbatim>\<open>genRpcs\<close>: one handler for every module and operation of the receiver, and \<^verbatim>\<open>nil\<close>
  (here the empty map) for the \<^verbatim>\<open>nil\<close> receiver.
\<close>

definition genRpcs ::
  "env \<Rightarrow> rpc option
     \<Rightarrow> (encodedString \<Rightarrow> event list \<Rightarrow> (encodedString \<times> error option) \<times> event list)
          gomap gomap" where
  "genRpcs e r =
     (case r of
        None \<Rightarrow> []
      | Some r' \<Rightarrow>
          map (\<lambda>(module, rpcs).
                 (module, map (\<lambda>(name, command). (name, genRpc e r' module name command)) rpcs))
              (r_modules r'))"

subsection \<open>Equality\<close>

text \<open>
  A pointer is an \<open>option\<close>, \<open>None\<close> being \<^verbatim>\<open>nil\<close>. An \<^verbatim>\<open>Equal\<close> method takes its
  right operand as an interface value; the type assertion on it succeeds for a \<^verbatim>\<open>nil\<close>
  pointer of the right type too, and the method then reads a field through that pointer.
  Reading a field through \<^verbatim>\<open>nil\<close> is a run-time panic, so a comparison returns a
  panic or a truth value.
\<close>

datatype panic = NilDereference

text \<open>
  \<^verbatim>\<open>a && b\<close>: the right operand is evaluated only when the left one is true.
\<close>

definition andalso :: "panic + bool \<Rightarrow> panic + bool \<Rightarrow> panic + bool" where
  "andalso a b = (case a of Inl p \<Rightarrow> Inl p | Inr ok \<Rightarrow> if ok then b else Inr False)"

text \<open>
  A loop \<^verbatim>\<open>for k, v := range m { if !test(k, v) { return false } }\<close> that is followed by
  \<^verbatim>\<open>return true\<close> or by the next test: it stops at the first entry whose test fails or
  panics.
\<close>

fun range_all :: "('a \<Rightarrow> panic + bool) \<Rightarrow> 'a list \<Rightarrow> panic + bool" where
  "range_all test [] = Inr True"
| "range_all test (x # xs) =
     (case test x of
        Inl p \<Rightarrow> Inl p
      | Inr ok \<Rightarrow> if ok then range_all test xs else Inr False)"

text \<open>A loop over a map whose body updates an accumulator and may panic.\<close>

fun range_fold :: "('a \<Rightarrow> 'b \<Rightarrow> panic + 'b) \<Rightarrow> 'a list \<Rightarrow> 'b \<Rightarrow> panic + 'b" where
  "range_fold f [] acc = Inr acc"
| "range_fold f (x # xs) acc =
     (case f x acc of
        Inl p \<Rightarrow> Inl p
      | Inr acc' \<Rightarrow> range_fold f xs acc')"

text \<open>
  Modelled from the spec: \<^verbatim>\<open>dyn.Equal\<close> belongs to the library
  \<^verbatim>\<open>jsouthworth.net/go/dyn\<close>, which is not part of the sources. It hands the comparison to
  the \<^verbatim>\<open>Equal\<close> method of its first argument. What it does when the first argument is
  an absent (\<^verbatim>\<open>nil\<close>) sub-entity follows the data model of the design: a model owns at
  most one Config, one State and one RPC set, any of which may be absent, and equality is
  structural across all three; so an absent first operand equals an absent operand only.
\<close>

definition dyn_Equal ::
  "('a \<Rightarrow> 'a option \<Rightarrow> panic + bool) \<Rightarrow> 'a option \<Rightarrow> 'a option \<Rightarrow> panic + bool" where
  "dyn_Equal eq one two =
     (case one of
        Some v \<Rightarrow> eq v two
      | None \<Rightarrow> Inr (case two of None \<Rightarrow> True | Some w \<Rightarrow> False))"

definition config_Equal :: "config \<Rightarrow> config option \<Rightarrow> panic + bool" where
  "config_Equal c other =
     (case other of
        None \<Rightarrow> Inl NilDereference
      | Some oc \<Rightarrow> Inr (c_get c = c_get oc \<and> c_set c = c_set oc \<and> c_check c = c_check oc))"

definition state_Equal :: "state \<Rightarrow> state option \<Rightarrow> panic + bool" where
  "state_Equal c other =
     (case other of
        None \<Rightarrow> Inl NilDereference
      | Some os \<Rightarrow> Inr (s_get c = s_get os))"

text \<open>
  One of the two loops of \<^verbatim>\<open>rpc.Equal\<close>, which are the same loop with the two
  operands exchanged: every module of \<open>ms\<close> is a module of \<open>oms\<close>, and every operation
  of it has the same script when \<open>oms\<close> is indexed by its name.
\<close>

definition modules_in :: "string gomap gomap \<Rightarrow> string gomap gomap \<Rightarrow> bool" where
  "modules_in ms oms =
     list_all (\<lambda>(module, names).
        (case map_of oms module of
           None \<Rightarrow> False
         | Some oNames \<Rightarrow> list_all (\<lambda>(name, script). index0 oNames name = script) names)) ms"

text \<open>
  \<^verbatim>\<open>rpc.Equal\<close> reads \<^verbatim>\<open>len(or.modules)\<close> first, through the right operand; its loops read
  maps only and cannot panic.
\<close>

definition rpc_Equal :: "rpc \<Rightarrow> rpc option \<Rightarrow> panic + bool" where
  "rpc_Equal r other =
     (case other of
        None \<Rightarrow> Inl NilDereference
      | Some or' \<Rightarrow>
          Inr (if length (r_modules or') \<noteq> length (r_modules r) then False
               else modules_in (r_modules r) (r_modules or') \<and>
                    modules_in (r_modules or') (r_modules r)))"

section \<open>Models\<close>

record Model =
  m_name :: string
  m_config :: "config option"
  m_state :: "state option"
  m_rpc :: "rpc option"

definition Model_Config :: "Model \<Rightarrow> config option \<times> bool" where
  "Model_Config c = (m_config c, m_config c \<noteq> None)"

definition Model_State :: "Model \<Rightarrow> state option \<times> bool" where
  "Model_State c = (m_state c, m_state c \<noteq> None)"

definition Model_RPC ::
  "env \<Rightarrow> Model
     \<Rightarrow> (encodedString \<Rightarrow> event list \<Rightarrow> (encodedString \<times> error option) \<times> event list)
          gomap gomap \<times> bool" where
  "Model_RPC e c = (genRpcs e (m_rpc c), m_rpc c \<noteq> None)"

definition Model_Equal :: "Model \<Rightarrow> Model option \<Rightarrow> panic + bool" where
  "Model_Equal c other =
     (case other of
        None \<Rightarrow> Inl NilDereference
      | Some om \<Rightarrow>
          andalso (Inr (m_name c = m_name om))
            (andalso (dyn_Equal config_Equal (m_config c) (m_config om))
               (andalso (dyn_Equal state_Equal (m_state c) (m_state om))
                  (dyn_Equal rpc_Equal (m_rpc c) (m_rpc om)))))"

section \<open>The instance file as the ini reader presents it\<close>

text \<open>
  The reader (\<^verbatim>\<open>github.com/go-ini/ini\<close>) is a library outside the sources; the model
  takes a loaded file as the list of its sections, each with its name and its keys in
  file order. The calls the sources make on it behave as the library documents them:
  \<^item> \<^verbatim>\<open>File.Section(name)\<close> "assumes named section exists and returns a zero-value when
    not": the named section, or an empty one;
  \<^item> \<^verbatim>\<open>Section.Key(name)\<close> "assumes named Key exists in section and returns a zero-value
    when not": the key of that name, or a key of that name with the empty value. It never
    returns \<^verbatim>\<open>nil\<close>. (The key it makes up is also added to the section; such a key has
    no \<^verbatim>\<open>RPC/\<close> prefix in these sources, so the later scan of \<^verbatim>\<open>Section.Keys()\<close> skips
    it, and the model leaves the section as it is. The reader's lookup of a missing key in
    a parent section, named by cutting the section's name at a dot, is outside the
    model.)
  \<^item> \<^verbatim>\<open>Key.MustString(d)\<close>: the value, or \<open>d\<close> when the value is empty; it is not
    defined on the \<^verbatim>\<open>nil\<close> key, which it would dereference.
\<close>

datatype key = Key (key_Name: string) (key_String: string)

record Section =
  sec_Name :: string
  sec_keys :: "string gomap"

type_synonym File = "Section list"

definition File_Section :: "File \<Rightarrow> string \<Rightarrow> Section" where
  "File_Section cfg name =
     (case find (\<lambda>s. sec_Name s = name) cfg of
        Some s \<Rightarrow> s
      | None \<Rightarrow> \<lparr>sec_Name = name, sec_keys = []\<rparr>)"

definition Section_Key :: "Section \<Rightarrow> string \<Rightarrow> key option" where
  "Section_Key s name =
     (case map_of (sec_keys s) name of
        Some v \<Rightarrow> Some (Key name v)
      | None \<Rightarrow> Some (Key name []))"

definition Section_Keys :: "Section \<Rightarrow> key list" where
  "Section_Keys s = map (\<lambda>(n, v). Key n v) (sec_keys s)"

fun MustString :: "key option \<Rightarrow> string \<Rightarrow> string" where
  "MustString (Some k) d = (if key_String k = [] then d else key_String k)"

subsection \<open>Building a model from its section\<close>

definition configNew :: "string \<Rightarrow> string \<Rightarrow> Section \<Rightarrow> config option" where
  "configNew compName modelName sec =
     (let getKey = Section_Key sec ''Config/Get'';
          setKey = Section_Key sec ''Config/Set'';
          chkKey = Section_Key sec ''Config/Check''
      in if getKey = None \<and> setKey = None \<and> chkKey = None then None
         else Some \<lparr>c_compName = compName,
                     c_modelName = modelName,
                     c_get = MustString getKey [],
                     c_set = MustString setKey [],
                     c_check = MustString chkKey []\<rparr>)"

definition stateNew :: "string \<Rightarrow> string \<Rightarrow> Section \<Rightarrow> state option" where
  "stateNew compName modelName sec =
     (let getKey = Section_Key sec ''State/Get''
      in if getKey = None then None
         else Some \<lparr>s_compName = compName,
                     s_modelName = modelName,
                     s_get = MustString getKey []\<rparr>)"

text \<open>The body of the loop of \<^verbatim>\<open>rpcNew\<close> over the keys of the section.\<close>

definition rpcNew_step :: "key \<Rightarrow> string gomap gomap \<Rightarrow> string gomap gomap" where
  "rpcNew_step k modules =
     (if \<not> HasPrefix (key_Name k) ''RPC/'' then modules
      else
        let parts = Split (key_Name k) CHR ''/''
        in if length parts \<noteq> 3 then modules
           else
             let module = parts ! 1;
                 name = parts ! 2;
                 rpcs = (case map_of modules module of None \<Rightarrow> [] | Some rpcs \<Rightarrow> rpcs)
             in AList.update module (AList.update name (key_String k) rpcs) modules)"

definition rpcNew :: "string \<Rightarrow> string \<Rightarrow> Section \<Rightarrow> rpc option" where
  "rpcNew compName modelName sec =
     (let modules = fold rpcNew_step (Section_Keys sec) []
      in if length modules = 0 then None
         else Some \<lparr>r_compName = compName, r_modelName = modelName, r_modules = modules\<rparr>)"

definition modelNew :: "string \<Rightarrow> string \<Rightarrow> Section \<Rightarrow> Model" where
  "modelNew compName name sec =
     \<lparr>m_name = name,
      m_config = configNew compName name sec,
      m_state = stateNew compName name sec,
      m_rpc = rpcNew compName name sec\<rparr>"

section \<open>Components\<close>

record Component =
  instanceFile :: string
  comp_name :: string
  comp_start :: string
  comp_stop :: string
  comp_models :: "Model gomap"

text \<open>
  The files the daemon reads: \<^verbatim>\<open>ini.Load\<close> of a path (a loaded file or the loader's
  error) and \<^verbatim>\<open>ioutil.ReadDir\<close> of a directory (the entries in the order it returns
  them, each with its \<^verbatim>\<open>IsDir()\<close> flag, or \<open>None\<close> when it fails).
\<close>

record filesystem =
  ini_Load :: "string \<Rightarrow> error + File"
  ReadDir :: "string \<Rightarrow> (string \<times> bool) list option"

definition instantiate_step :: "string \<Rightarrow> Section \<Rightarrow> Model gomap \<Rightarrow> Model gomap" where
  "instantiate_step name sec models =
     (if \<not> HasPrefix (sec_Name sec) ''Model '' then models
      else
        let modelName = Split (sec_Name sec) CHR '' '' ! 1
        in AList.update modelName (modelNew name modelName sec) models)"

definition instantiate :: "filesystem \<Rightarrow> Component \<Rightarrow> error + Component" where
  "instantiate fs c =
     (case ini_Load fs (instanceFile c) of
        Inl err \<Rightarrow> Inl err
      | Inr cfg \<Rightarrow>
          let name = MustString (Section_Key (File_Section cfg ''Component'') ''Name'') [];
              start = MustString (Section_Key (File_Section cfg ''Component'') ''Start'') [];
              stop = MustString (Section_Key (File_Section cfg ''Component'') ''Stop'') []
          in Inr (c\<lparr>comp_name := name,
                     comp_start := start,
                     comp_stop := stop,
                     comp_models := fold (instantiate_step name) cfg (comp_models c)\<rparr>))"

definition From :: "string \<Rightarrow> Component \<Rightarrow> Component" where
  "From file c = c\<lparr>instanceFile := file\<rparr>"

definition New :: "filesystem \<Rightarrow> (Component \<Rightarrow> Component) list \<Rightarrow> error + Component" where
  "New fs opts =
     (let c = fold (\<lambda>opt c. opt c) opts
                \<lparr>instanceFile = [], comp_name = [], comp_start = [], comp_stop = [],
                 comp_models = []\<rparr>
      in instantiate fs c)"

text \<open>
  \<^verbatim>\<open>equalModels\<close> indexes the other map with each key; a missing key gives the \<^verbatim>\<open>nil\<close>
  model, which \<^verbatim>\<open>Model.Equal\<close> then reads through.
\<close>

definition equalModels :: "Component \<Rightarrow> Component \<Rightarrow> panic + bool" where
  "equalModels c other =
     (if length (comp_models c) \<noteq> length (comp_models other) then Inr False
      else
        andalso
          (range_all (\<lambda>(k, v). dyn_Equal Model_Equal (Some v) (map_of (comp_models other) k))
                     (comp_models c))
          (range_all (\<lambda>(k, v). dyn_Equal Model_Equal (Some v) (map_of (comp_models c) k))
                     (comp_models other)))"

definition Component_Equal :: "Component \<Rightarrow> Component option \<Rightarrow> panic + bool" where
  "Component_Equal c other =
     (case other of
        None \<Rightarrow> Inl NilDereference
      | Some oc \<Rightarrow>
          andalso (Inr (comp_name c = comp_name oc))
            (andalso (Inr (comp_start c = comp_start oc))
               (andalso (Inr (comp_stop c = comp_stop oc))
                  (equalModels c oc))))"

definition Component_Start :: "env \<Rightarrow> Component \<Rightarrow> event list \<Rightarrow> error option \<times> event list" where
  "Component_Start e c tr =
     (if comp_start c = [] then (None, tr)
      else
        let startArgs = Split (comp_start c) CHR '' '';
            cmd = \<lparr>argv = startArgs,
                   environ = genEnvironment (comp_name c) [] ''Start'',
                   stdin = None\<rparr>;
            ((buf, failed, stdErr), tr') = Output e cmd tr
        in if \<not> failed then (None, tr') else (Some (unpackError e stdErr), tr'))"

definition Component_Stop :: "env \<Rightarrow> Component \<Rightarrow> event list \<Rightarrow> error option \<times> event list" where
  "Component_Stop e c tr =
     (if comp_stop c = [] then (None, tr)
      else
        let stopArgs = Split (comp_stop c) CHR '' '';
            cmd = \<lparr>argv = stopArgs,
                   environ = genEnvironment (comp_name c) [] ''Stop'',
                   stdin = None\<rparr>;
            ((buf, failed, stdErr), tr') = Output e cmd tr
        in if \<not> failed then (None, tr') else (Some (unpackError e stdErr), tr'))"

section \<open>The daemon: runtime components\<close>

text \<open>
  A runtime component couples the parsed component with its bus registration and the
  agent that holds its running flag. The registration and the agent are objects with an
  identity: \<open>vci\<close> and \<open>started\<close> are their addresses. The world holds the trace of what
  the daemon did to its environment, the state of every agent, and the next unused
  address. A function sent to an agent runs to its end before the next one starts, and
  the sender waits for its answer on a channel, so a call of \<^verbatim>\<open>Run\<close> or \<^verbatim>\<open>Stop\<close> is one
  step on the world.
\<close>

record component =
  meta :: Component
  vci :: nat
  started :: nat

record world =
  trace :: "event list"
  agents :: "nat \<Rightarrow> bool"
  fresh :: nat

text \<open>
  \<^verbatim>\<open>createVCIComponent\<close> builds the bus registration of a component from its models; the
  model keeps its identity only.
\<close>

definition createVCIComponent :: "Component \<Rightarrow> world \<Rightarrow> nat \<times> world" where
  "createVCIComponent comp' w = (fresh w, w\<lparr>fresh := Suc (fresh w)\<rparr>)"

definition newComponent :: "Component \<Rightarrow> nat \<Rightarrow> world \<Rightarrow> component \<times> world" where
  "newComponent m v w =
     (\<lparr>meta = m, vci = v, started = fresh w\<rparr>,
      w\<lparr>agents := (agents w)(fresh w := False), fresh := Suc (fresh w)\<rparr>)"

text \<open>\<^verbatim>\<open>c.vci.Run()\<close> and \<^verbatim>\<open>c.vci.Stop()\<close>: the bus answers, and the call is traced.\<close>

definition vci_Run :: "env \<Rightarrow> nat \<Rightarrow> event list \<Rightarrow> error option \<times> event list" where
  "vci_Run e v tr = (bus_run e tr v, tr @ [BusRun v])"

definition vci_Stop :: "env \<Rightarrow> nat \<Rightarrow> event list \<Rightarrow> error option \<times> event list" where
  "vci_Stop e v tr = (bus_stop e tr v, tr @ [BusStop v])"

text \<open>
  \<^verbatim>\<open>component.Run\<close>. The value that \<^verbatim>\<open>c.meta.Start()\<close> returns is not assigned to
  anything in the source.
\<close>

definition component_Run :: "env \<Rightarrow> component \<Rightarrow> world \<Rightarrow> error option \<times> world" where
  "component_Run e c w =
     (let isRunning = agents w (started c)
      in if isRunning then (None, w)
         else
           let (unused, tr1) = Component_Start e (meta c) (trace w);
               (err, tr2) = vci_Run e (vci c) tr1
           in (err, w\<lparr>trace := tr2,
                       agents := (agents w)(started c := (if err = None then True else False))\<rparr>))"

definition component_Running :: "component \<Rightarrow> world \<Rightarrow> bool" where
  "component_Running c w = agents w (started c)"

text \<open>\<^verbatim>\<open>component.Stop\<close>; the value of \<^verbatim>\<open>c.meta.Stop()\<close> is dropped in the same way.\<close>

definition component_Stop :: "env \<Rightarrow> component \<Rightarrow> world \<Rightarrow> error option \<times> world" where
  "component_Stop e c w =
     (let isRunning = agents w (started c)
      in if \<not> isRunning then (None, w)
         else
           let (unused, tr1) = Component_Stop e (meta c) (trace w);
               (err, tr2) = vci_Stop e (vci c) tr1
           in (err, w\<lparr>trace := tr2,
                       agents := (agents w)(started c := (if err = None then False else True))\<rparr>))"

section \<open>The registry and its reconciliation\<close>

definition readAllComponents_step ::
  "filesystem \<Rightarrow> string \<Rightarrow> string \<times> bool \<Rightarrow> component gomap \<times> world
     \<Rightarrow> component gomap \<times> world" where
  "readAllComponents_step fs instanceDir fi acc =
     (case acc of (cs, w) \<Rightarrow>
        if snd fi then (cs, w)
        else
          let name = instanceDir @ ''/'' @ fst fi
          in (case New fs [From name] of
                Inl err \<Rightarrow> (cs, w)
              | Inr comp' \<Rightarrow>
                  let (v, w1) = createVCIComponent comp' w;
                      (c, w2) = newComponent comp' v w1
                  in (AList.update (comp_name comp') c cs, w2)))"

definition readAllComponents ::
  "filesystem \<Rightarrow> string \<Rightarrow> world \<Rightarrow> component gomap \<times> world" where
  "readAllComponents fs instanceDir w =
     (case ReadDir fs instanceDir of
        None \<Rightarrow> ([], w)
      | Some dir \<Rightarrow> fold (readAllComponents_step fs instanceDir) dir ([], w))"

text \<open>
  The function that \<^verbatim>\<open>watchInstanceDirectory\<close> swaps into the registry. Its inner loop
  visits the entries of the fresh snapshot and writes into that same snapshot. A panic of
  a comparison ends it, and the daemon with it.
\<close>

definition swapper_step ::
  "component gomap \<Rightarrow> string \<times> component \<Rightarrow> component gomap \<Rightarrow> panic + component gomap" where
  "swapper_step old entry t =
     (case entry of (name, comp') \<Rightarrow>
        (case map_of old name of
           None \<Rightarrow> Inr t
         | Some oldComp \<Rightarrow>
             (case dyn_Equal Component_Equal (Some (meta comp')) (Some (meta oldComp)) of
                Inl p \<Rightarrow> Inl p
              | Inr eq \<Rightarrow> Inr (if eq then AList.update name oldComp t else t))))"

definition swapper ::
  "filesystem \<Rightarrow> string \<Rightarrow> component gomap \<Rightarrow> world
     \<Rightarrow> panic + component gomap \<times> world" where
  "swapper fs instanceDir old w =
     (let (new, w') = readAllComponents fs instanceDir w
      in (case range_fold (swapper_step old) new new of
            Inl p \<Rightarrow> Inl p
          | Inr t \<Rightarrow> Inr (t, w')))"

text \<open>
  \<^verbatim>\<open>syncComponents\<close>, the watch on the registry: the actions it collects (each the
  component to stop and its name), then their execution, which logs an error and goes on.
\<close>

definition sync_removed ::
  "component gomap \<Rightarrow> string \<times> component \<Rightarrow> (component \<times> string) list
     \<Rightarrow> (component \<times> string) list" where
  "sync_removed new entry actions =
     (case entry of (name, comp') \<Rightarrow>
        if map_of new name \<noteq> None then actions
        else actions @ [(comp', name)])"

definition sync_changed ::
  "component gomap \<Rightarrow> string \<times> component \<Rightarrow> (component \<times> string) list
     \<Rightarrow> panic + (component \<times> string) list" where
  "sync_changed old entry actions =
     (case entry of (name, comp') \<Rightarrow>
        (case map_of old name of
           None \<Rightarrow> Inr actions
         | Some val \<Rightarrow>
             (case dyn_Equal Component_Equal (Some (meta comp')) (Some (meta val)) of
                Inl p \<Rightarrow> Inl p
              | Inr eq \<Rightarrow> Inr (if eq then actions else actions @ [(val, name)]))))"

definition sync_actions ::
  "component gomap \<Rightarrow> component gomap \<Rightarrow> panic + (component \<times> string) list" where
  "sync_actions old new =
     range_fold (sync_changed old) new (fold (sync_removed new) old [])"

definition syncComponents ::
  "env \<Rightarrow> component gomap \<Rightarrow> component gomap \<Rightarrow> world \<Rightarrow> panic + world" where
  "syncComponents e old new w =
     (case sync_actions old new of
        Inl p \<Rightarrow> Inl p
      | Inr actions \<Rightarrow> Inr (fold (\<lambda>act w'. snd (component_Stop e (fst act) w')) actions w))"

text \<open>
  One filesystem event that is not a chmod: the registry is swapped, then its watch runs
  on the old and the new snapshot.
\<close>

definition handleEvent ::
  "env \<Rightarrow> filesystem \<Rightarrow> string \<Rightarrow> component gomap \<Rightarrow> world
     \<Rightarrow> panic + component gomap \<times> world" where
  "handleEvent e fs instanceDir old w =
     (case swapper fs instanceDir old w of
        Inl p \<Rightarrow> Inl p
      | Inr (new, w') \<Rightarrow>
          (case syncComponents e old new w' of
             Inl p \<Rightarrow> Inl p
           | Inr w'' \<Rightarrow> Inr (new, w'')))"

section \<open>The bus operations of the daemon\<close>

datatype Tree = TreeNew

definition Activate ::
  "env \<Rightarrow> component gomap \<Rightarrow> string \<Rightarrow> world \<Rightarrow> (error + Tree) \<times> world" where
  "Activate e cs name w =
     (case map_of cs name of
        None \<Rightarrow> (Inl (ErrorString (''no component by the name '' @ name @ '' found'')), w)
      | Some comp' \<Rightarrow>
          (case component_Run e comp' w of
             (Some err, w') \<Rightarrow> (Inl err, w')
           | (None, w') \<Rightarrow> (Inr TreeNew, w')))"

definition Deactivate ::
  "env \<Rightarrow> component gomap \<Rightarrow> string \<Rightarrow> world \<Rightarrow> (error + Tree) \<times> world" where
  "Deactivate e cs name w =
     (case map_of cs name of
        None \<Rightarrow> (Inl (ErrorString (''no component by the name '' @ name @ '' found'')), w)
      | Some comp' \<Rightarrow>
          (case component_Stop e comp' w of
             (Some err, w') \<Rightarrow> (Inl err, w')
           | (None, w') \<Rightarrow> (Inr TreeNew, w')))"

section \<open>Notions used to state the properties\<close>

text \<open>The process that the environment runs for \<open>cmd\<close> after the trace \<open>tr\<close> exits nonzero.\<close>

definition exits_nonzero :: "env \<Rightarrow> event list \<Rightarrow> invocation \<Rightarrow> bool" where
  "exits_nonzero e tr cmd =
     (case proc e tr cmd of Exited n out errtxt \<Rightarrow> n \<noteq> 0 | NotStarted \<Rightarrow> False)"

text \<open>
  How many processes of a trace were given the operation label \<open>label\<close> in
  \<^verbatim>\<open>EPHEMERA_MESSAGE\<close>.
\<close>

definition script_runs :: "string \<Rightarrow> event list \<Rightarrow> nat" where
  "script_runs label tr =
     length (filter (\<lambda>ev. case ev of
                             Spawn cmd \<Rightarrow> (''EPHEMERA_MESSAGE='' @ label) \<in> set (environ cmd)
                           | BusRun v \<Rightarrow> False
                           | BusStop v \<Rightarrow> False) tr)"

text \<open>
  What Go guarantees of a map, for the maps of an RPC set, a model and a component: keys
  are pairwise different. A module of an RPC set, as \<^verbatim>\<open>rpcNew\<close> builds it, also has at
  least one operation.
\<close>

definition wf_modules :: "string gomap gomap \<Rightarrow> bool" where
  "wf_modules ms = (wf_map ms \<and> list_all (\<lambda>(module, names). wf_map names \<and> names \<noteq> []) ms)"

definition wf_Model :: "Model \<Rightarrow> bool" where
  "wf_Model m = (case m_rpc m of None \<Rightarrow> True | Some r \<Rightarrow> wf_modules (r_modules r))"

definition wf_Component :: "Component \<Rightarrow> bool" where
  "wf_Component c = (wf_map (comp_models c) \<and> list_all (\<lambda>(k, m). wf_Model m) (comp_models c))"

text \<open>The module, operation and command triples of an RPC set.\<close>

definition triples :: "string gomap gomap \<Rightarrow> (string \<times> string \<times> string) list" where
  "triples ms = concat (map (\<lambda>(module, names). map (\<lambda>(name, script). (module, name, script)) names) ms)"

text \<open>
  Two models have the same name and the same commands: the same Config strings, the same
  State string and the same set of RPC triples, each sub-entity being present in both or
  absent in both.
\<close>

definition same_commands :: "Model \<Rightarrow> Model \<Rightarrow> bool" where
  "same_commands a b =
     (m_name a = m_name b \<and>
      rel_option (\<lambda>x y. c_get x = c_get y \<and> c_set x = c_set y \<and> c_check x = c_check y)
        (m_config a) (m_config b) \<and>
      rel_option (\<lambda>x y. s_get x = s_get y) (m_state a) (m_state b) \<and>
      rel_option (\<lambda>x y. set (triples (r_modules x)) = set (triples (r_modules y)))
        (m_rpc a) (m_rpc b))"

text \<open>
  Two models differ in a command string: one of the Config strings, the State string or
  the command of an RPC operation that both have.
\<close>

definition command_differs :: "Model \<Rightarrow> Model \<Rightarrow> bool" where
  "command_differs a b =
     ((case (m_config a, m_config b) of
         (Some x, Some y) \<Rightarrow> c_get x \<noteq> c_get y \<or> c_set x \<noteq> c_set y \<or> c_check x \<noteq> c_check y
       | _ \<Rightarrow> False) \<or>
      (case (m_state a, m_state b) of
         (Some x, Some y) \<Rightarrow> s_get x \<noteq> s_get y
       | _ \<Rightarrow> False) \<or>
      (case (m_rpc a, m_rpc b) of
         (Some x, Some y) \<Rightarrow>
           list_ex (\<lambda>(module, name, script).
              list_ex (\<lambda>(module', name', script').
                 module' = module \<and> name' = name \<and> script' \<noteq> script) (triples (r_modules y)))
             (triples (r_modules x))
       | _ \<Rightarrow> False))"

text \<open>
  An entry of a freshly read snapshot whose name the old snapshot holds with an equal
  parsed component: the test of \<^verbatim>\<open>swapper\<close> and of \<^verbatim>\<open>syncComponents\<close>.
\<close>

definition unchanged :: "component gomap \<Rightarrow> string \<times> component \<Rightarrow> bool" where
  "unchanged old entry =
     (case entry of (name, c) \<Rightarrow>
        (case map_of old name of
           None \<Rightarrow> False
         | Some oldComp \<Rightarrow>
             dyn_Equal Component_Equal (Some (meta c)) (Some (meta oldComp)) = Inr True))"

section \<open>Example inputs\<close>

text \<open>
  Three environments: one where every script exits with status 1 after writing \<open>X\<close> to
  stdout and \<open>boom\<close> to stderr while the bus accepts everything, one where every script
  succeeds silently, and one where scripts succeed and the bus refuses every call.
\<close>

definition env_fail :: env where
  "env_fail = \<lparr>proc = (\<lambda>tr cmd. Exited 1 ''X'' ''boom''),
               bus_run = (\<lambda>tr v. None), bus_stop = (\<lambda>tr v. None),
               json_decodes = (\<lambda>s. False)\<rparr>"

definition env_quiet :: env where
  "env_quiet = \<lparr>proc = (\<lambda>tr cmd. Exited 0 [] []),
                bus_run = (\<lambda>tr v. None), bus_stop = (\<lambda>tr v. None),
                json_decodes = (\<lambda>s. False)\<rparr>"

definition env_bus_down :: env where
  "env_bus_down = \<lparr>proc = (\<lambda>tr cmd. Exited 0 [] []),
                   bus_run = (\<lambda>tr v. Some (ErrorString ''bus'')),
                   bus_stop = (\<lambda>tr v. Some (ErrorString ''bus'')),
                   json_decodes = (\<lambda>s. False)\<rparr>"

definition config0 :: config where
  "config0 = \<lparr>c_compName = ''c'', c_modelName = ''m'', c_get = ''/bin/g -a'',
              c_set = ''/bin/s'', c_check = ''/bin/k''\<rparr>"

definition config_none :: config where
  "config_none = \<lparr>c_compName = ''c'', c_modelName = ''m'', c_get = [], c_set = [],
                  c_check = []\<rparr>"

definition state0 :: state where
  "state0 = \<lparr>s_compName = ''c'', s_modelName = ''m'', s_get = ''/bin/st''\<rparr>"

definition state_none :: state where
  "state_none = \<lparr>s_compName = ''c'', s_modelName = ''m'', s_get = []\<rparr>"

definition rpc0 :: rpc where
  "rpc0 = \<lparr>r_compName = ''c'', r_modelName = ''m'',
           r_modules = [(''test'', [(''rpc1'', ''/bin/x --rpc'')])]\<rparr>"

definition example_cmd :: "string list \<Rightarrow> string \<Rightarrow> encodedString option \<Rightarrow> invocation" where
  "example_cmd args label inp =
     \<lparr>argv = args, environ = genEnvironment ''c'' ''m'' label, stdin = inp\<rparr>"

definition comp0 :: Component where
  "comp0 = \<lparr>instanceFile = ''/i/a'', comp_name = ''c'', comp_start = ''/bin/start'',
            comp_stop = ''/bin/stop'', comp_models = []\<rparr>"

definition comp_none :: Component where
  "comp_none = \<lparr>instanceFile = ''/i/a'', comp_name = ''c'', comp_start = [],
                comp_stop = [], comp_models = []\<rparr>"

text \<open>A runtime component for \<open>comp0\<close>, in a world where it is stopped and in one where it runs.\<close>

definition rt0 :: component where
  "rt0 = \<lparr>meta = comp0, vci = 0, started = 1\<rparr>"

definition world0 :: world where
  "world0 = \<lparr>trace = [], agents = (\<lambda>a. False), fresh = 2\<rparr>"

definition world1 :: world where
  "world1 = \<lparr>trace = [], agents = (\<lambda>a. a = 1), fresh = 2\<rparr>"

text \<open>
  Two instance files and a filesystem: \<open>file0\<close> is stored under two paths, and \<open>file1\<close>
  has a model with a single Config key and a model with no key at all. The directory
  \<open>/i\<close> lists one file.
\<close>

definition file0 :: File where
  "file0 =
     [\<lparr>sec_Name = ''Component'', sec_keys = [(''Name'', ''c''), (''Start'', ''/bin/start'')]\<rparr>,
      \<lparr>sec_Name = ''Model m'',
       sec_keys = [(''Config/Get'', ''/bin/g''), (''RPC/test/rpc1'', ''/bin/x'')]\<rparr>]"

definition file1 :: File where
  "file1 =
     [\<lparr>sec_Name = ''Component'', sec_keys = [(''Name'', ''c'')]\<rparr>,
      \<lparr>sec_Name = ''Model m'', sec_keys = [(''Config/Get'', ''/bin/g'')]\<rparr>,
      \<lparr>sec_Name = ''Model n'', sec_keys = []\<rparr>]"

definition fs0 :: filesystem where
  "fs0 =
     \<lparr>ini_Load = (\<lambda>p. if p = ''/i/a'' \<or> p = ''/i/b'' then Inr file0
                       else if p = ''/i/n'' then Inr file1
                       else Inl (ErrorString ''open'')),
      ReadDir = (\<lambda>d. if d = ''/i'' then Some [(''a'', False)] else None)\<rparr>"

definition compA :: Component where
  "compA =
     \<lparr>instanceFile = ''/i/a'', comp_name = ''c'', comp_start = ''/bin/start'', comp_stop = [],
      comp_models =
        [(''m'', \<lparr>m_name = ''m'',
                  m_config = Some \<lparr>c_compName = ''c'', c_modelName = ''m'', c_get = ''/bin/g'',
                                   c_set = [], c_check = []\<rparr>,
                  m_state = Some \<lparr>s_compName = ''c'', s_modelName = ''m'', s_get = []\<rparr>,
                  m_rpc = Some \<lparr>r_compName = ''c'', r_modelName = ''m'',
                                r_modules = [(''test'', [(''rpc1'', ''/bin/x'')])]\<rparr>\<rparr>)]\<rparr>"

definition rtA :: component where
  "rtA = \<lparr>meta = compA, vci = 0, started = 1\<rparr>"

definition compN :: Component where
  "compN =
     \<lparr>instanceFile = ''/i/n'', comp_name = ''c'', comp_start = [], comp_stop = [],
      comp_models =
        [(''m'', \<lparr>m_name = ''m'',
                  m_config = Some \<lparr>c_compName = ''c'', c_modelName = ''m'', c_get = ''/bin/g'',
                                   c_set = [], c_check = []\<rparr>,
                  m_state = Some \<lparr>s_compName = ''c'', s_modelName = ''m'', s_get = []\<rparr>,
                  m_rpc = None\<rparr>),
         (''n'', \<lparr>m_name = ''n'',
                  m_config = Some \<lparr>c_compName = ''c'', c_modelName = ''n'', c_get = [],
                                   c_set = [], c_check = []\<rparr>,
                  m_state = Some \<lparr>s_compName = ''c'', s_modelName = ''n'', s_get = []\<rparr>,
                  m_rpc = None\<rparr>)]\<rparr>"

text \<open>RPC sets and models that differ in the order of their maps, or in one command.\<close>

definition rpc_ab :: rpc where
  "rpc_ab = \<lparr>r_compName = ''c'', r_modelName = ''m'',
             r_modules = [(''t'', [(''a'', ''/x''), (''b'', ''/y'')]), (''u'', [(''d'', ''/z'')])]\<rparr>"

definition rpc_ba :: rpc where
  "rpc_ba = \<lparr>r_compName = ''other'', r_modelName = ''m'',
             r_modules = [(''u'', [(''d'', ''/z'')]), (''t'', [(''b'', ''/y''), (''a'', ''/x'')])]\<rparr>"

definition rpc_ac :: rpc where
  "rpc_ac = \<lparr>r_compName = ''c'', r_modelName = ''m'',
             r_modules = [(''t'', [(''a'', ''/x''), (''b'', ''/w'')]), (''u'', [(''d'', ''/z'')])]\<rparr>"

definition model_ab :: Model where
  "model_ab = \<lparr>m_name = ''m'', m_config = Some config0, m_state = Some state0, m_rpc = Some rpc_ab\<rparr>"

definition model_ba :: Model where
  "model_ba = \<lparr>m_name = ''m'', m_config = Some (config0\<lparr>c_compName := ''other''\<rparr>),
                m_state = Some state0, m_rpc = Some rpc_ba\<rparr>"

definition model_ac :: Model where
  "model_ac = \<lparr>m_name = ''m'', m_config = Some config0, m_state = Some state0, m_rpc = Some rpc_ac\<rparr>"

text \<open>
  Two sections for the same model that differ in one line, \<^verbatim>\<open>RPC/t/b=\<close>, which binds
  the operation \<open>b\<close> of the module \<open>t\<close> to the empty command, and a section for it with
  no key.
\<close>

definition sec_a :: Section where
  "sec_a = \<lparr>sec_Name = ''Model m'', sec_keys = [(''RPC/t/a'', ''/x'')]\<rparr>"

definition sec_ab :: Section where
  "sec_ab = \<lparr>sec_Name = ''Model m'', sec_keys = [(''RPC/t/a'', ''/x''), (''RPC/t/b'', [])]\<rparr>"

definition sec_none :: Section where
  "sec_none = \<lparr>sec_Name = ''Model m'', sec_keys = []\<rparr>"

section \<open>Script invocation\<close>

lemma Split_example: "Split ''/bin/g -a'' CHR '' '' = [''/bin/g'', ''-a'']"
  by simp

lemma Split_empty: "Split [] CHR '' '' = [[]]"
  by simp

text \<open>
  C5. An operation whose command line is empty spawns no process (the trace is
  unchanged): Config Get and State Get return the empty payload, and Config Set,
  Config Check, the component's Start and its Stop return success.
\<close>

theorem empty_command_short_circuits:
  "(c_get c = [] \<longrightarrow> config_Get e c tr = ([], tr)) \<and>
   (c_set c = [] \<longrightarrow> config_Set e c inp tr = (None, tr)) \<and>
   (c_check c = [] \<longrightarrow> config_Check e c inp tr = (None, tr)) \<and>
   (s_get s = [] \<longrightarrow> state_Get e s tr = ([], tr)) \<and>
   (comp_start m = [] \<longrightarrow> Component_Start e m tr = (None, tr)) \<and>
   (comp_stop m = [] \<longrightarrow> Component_Stop e m tr = (None, tr))"
  by (simp add: config_Get_def config_Set_def config_Check_def state_Get_def
      Component_Start_def Component_Stop_def)

theorem empty_command_short_circuits_witness:
  "c_get config_none = [] \<and> config_Get env_fail config_none [] = ([], []) \<and>
   c_set config_none = [] \<and> config_Set env_fail config_none ''in'' [] = (None, []) \<and>
   c_check config_none = [] \<and> config_Check env_fail config_none ''in'' [] = (None, []) \<and>
   s_get state_none = [] \<and> state_Get env_fail state_none [] = ([], []) \<and>
   comp_start comp_none = [] \<and> Component_Start env_fail comp_none [] = (None, []) \<and>
   comp_stop comp_none = [] \<and> Component_Stop env_fail comp_none [] = (None, [])"
  using empty_command_short_circuits [of config_none env_fail "[]" "''in''" state_none comp_none]
  by (simp add: config_none_def state_none_def comp_none_def)

subsection \<open>A script that exits nonzero\<close>

lemma config_Set_fail:
  assumes "exits_nonzero e tr cmd" "snd (config_Set e c inp tr) = tr @ [Spawn cmd]"
  shows "fst (config_Set e c inp tr) \<noteq> None"
proof (cases "c_set c = []")
  case True
  with assms(2) show ?thesis by (simp add: config_Set_def)
next
  case False
  with assms show ?thesis
    by (auto simp: config_Set_def Output_def exits_nonzero_def Let_def split: proc_result.splits if_splits)
qed

lemma config_Check_fail:
  assumes "exits_nonzero e tr cmd" "snd (config_Check e c inp tr) = tr @ [Spawn cmd]"
  shows "fst (config_Check e c inp tr) \<noteq> None"
proof (cases "c_check c = []")
  case True
  with assms(2) show ?thesis by (simp add: config_Check_def)
next
  case False
  with assms show ?thesis
    by (auto simp: config_Check_def Output_def exits_nonzero_def Let_def split: proc_result.splits if_splits)
qed

lemma genRpc_fail:
  assumes "exits_nonzero e tr cmd" "snd (genRpc e r module name command inp tr) = tr @ [Spawn cmd]"
  shows "fst (fst (genRpc e r module name command inp tr)) = [] \<and>
         snd (fst (genRpc e r module name command inp tr)) \<noteq> None"
  using assms
  by (auto simp: genRpc_def Output_def exits_nonzero_def Let_def split: proc_result.splits if_splits)

lemma config_Get_fail:
  assumes "exits_nonzero e tr cmd" "snd (config_Get e c tr) = tr @ [Spawn cmd]"
  shows "fst (config_Get e c tr) = []"
proof (cases "c_get c = []")
  case True
  then show ?thesis by (simp add: config_Get_def)
next
  case False
  with assms show ?thesis
    by (auto simp: config_Get_def Output_def exits_nonzero_def Let_def split: proc_result.splits if_splits)
qed

lemma state_Get_fail:
  assumes "exits_nonzero e tr cmd" "snd (state_Get e s tr) = tr @ [Spawn cmd]"
  shows "fst (state_Get e s tr) = []"
proof (cases "s_get s = []")
  case True
  then show ?thesis by (simp add: state_Get_def)
next
  case False
  with assms show ?thesis
    by (auto simp: state_Get_def Output_def exits_nonzero_def Let_def split: proc_result.splits if_splits)
qed

text \<open>
  C4, as the code has it. When the script of an operation exits nonzero, Config Set, Config
  Check and an RPC return an error, and the RPC's payload is empty; Config Get and State
  Get, whose only result is a payload, return the empty payload.
\<close>

theorem nonzero_exit_results:
  assumes "exits_nonzero e tr cmd"
  shows "(snd (config_Set e c inp tr) = tr @ [Spawn cmd] \<longrightarrow> fst (config_Set e c inp tr) \<noteq> None) \<and>
         (snd (config_Check e c inp tr) = tr @ [Spawn cmd] \<longrightarrow>
            fst (config_Check e c inp tr) \<noteq> None) \<and>
         (snd (genRpc e r module name command inp tr) = tr @ [Spawn cmd] \<longrightarrow>
            fst (fst (genRpc e r module name command inp tr)) = [] \<and>
            snd (fst (genRpc e r module name command inp tr)) \<noteq> None) \<and>
         (snd (config_Get e c tr) = tr @ [Spawn cmd] \<longrightarrow> fst (config_Get e c tr) = []) \<and>
         (snd (state_Get e s tr) = tr @ [Spawn cmd] \<longrightarrow> fst (state_Get e s tr) = [])"
  using config_Set_fail [OF assms] config_Check_fail [OF assms] genRpc_fail [OF assms]
    config_Get_fail [OF assms] state_Get_fail [OF assms]
  by blast

theorem nonzero_exit_results_witness:
  "exits_nonzero env_fail [] (example_cmd [''/bin/s''] ''Config/Set'' (Some ''in'')) \<and>
   snd (config_Set env_fail config0 ''in'' []) = [] @ [Spawn (example_cmd [''/bin/s''] ''Config/Set'' (Some ''in''))] \<and>
   fst (config_Set env_fail config0 ''in'' []) \<noteq> None \<and>
   exits_nonzero env_fail [] (example_cmd [''/bin/k''] ''Config/Check'' (Some ''in'')) \<and>
   snd (config_Check env_fail config0 ''in'' []) = [] @ [Spawn (example_cmd [''/bin/k''] ''Config/Check'' (Some ''in''))] \<and>
   fst (config_Check env_fail config0 ''in'' []) \<noteq> None \<and>
   exits_nonzero env_fail [] (example_cmd [''/bin/x'', ''--rpc''] ''RPC/test/rpc1'' (Some ''in'')) \<and>
   snd (genRpc env_fail rpc0 ''test'' ''rpc1'' ''/bin/x --rpc'' ''in'' []) =
      [] @ [Spawn (example_cmd [''/bin/x'', ''--rpc''] ''RPC/test/rpc1'' (Some ''in''))] \<and>
   fst (fst (genRpc env_fail rpc0 ''test'' ''rpc1'' ''/bin/x --rpc'' ''in'' [])) = [] \<and>
   snd (fst (genRpc env_fail rpc0 ''test'' ''rpc1'' ''/bin/x --rpc'' ''in'' [])) \<noteq> None \<and>
   exits_nonzero env_fail [] (example_cmd [''/bin/g'', ''-a''] ''Config/Get'' None) \<and>
   snd (config_Get env_fail config0 []) = [] @ [Spawn (example_cmd [''/bin/g'', ''-a''] ''Config/Get'' None)] \<and>
   fst (config_Get env_fail config0 []) = [] \<and>
   exits_nonzero env_fail [] (example_cmd [''/bin/st''] ''State/Get'' None) \<and>
   snd (state_Get env_fail state0 []) = [] @ [Spawn (example_cmd [''/bin/st''] ''State/Get'' None)] \<and>
   fst (state_Get env_fail state0 []) = []"
proof -
  have f: "\<And>cmd. exits_nonzero env_fail [] cmd"
    by (simp add: exits_nonzero_def env_fail_def)
  have 1: "snd (config_Set env_fail config0 ''in'' []) = [] @ [Spawn (example_cmd [''/bin/s''] ''Config/Set'' (Some ''in''))]"
    by (simp add: config_Set_def config0_def Output_def env_fail_def example_cmd_def)
  have 2: "snd (config_Check env_fail config0 ''in'' []) = [] @ [Spawn (example_cmd [''/bin/k''] ''Config/Check'' (Some ''in''))]"
    by (simp add: config_Check_def config0_def Output_def env_fail_def example_cmd_def)
  have 3: "snd (genRpc env_fail rpc0 ''test'' ''rpc1'' ''/bin/x --rpc'' ''in'' []) =
      [] @ [Spawn (example_cmd [''/bin/x'', ''--rpc''] ''RPC/test/rpc1'' (Some ''in''))]"
    by (simp add: genRpc_def rpc0_def Output_def env_fail_def example_cmd_def genEnvironment_def)
  have 4: "snd (config_Get env_fail config0 []) = [] @ [Spawn (example_cmd [''/bin/g'', ''-a''] ''Config/Get'' None)]"
    by (simp add: config_Get_def config0_def Output_def env_fail_def example_cmd_def)
  have 5: "snd (state_Get env_fail state0 []) = [] @ [Spawn (example_cmd [''/bin/st''] ''State/Get'' None)]"
    by (simp add: state_Get_def state0_def Output_def env_fail_def example_cmd_def)
  note t = nonzero_exit_results [OF f]
  have a: "fst (config_Set env_fail config0 ''in'' []) \<noteq> None"
    using t [where c = config0 and inp = "''in''", THEN conjunct1] 1 by blast
  have b: "fst (config_Check env_fail config0 ''in'' []) \<noteq> None"
    using t [where c = config0 and inp = "''in''", THEN conjunct2, THEN conjunct1] 2 by blast
  have c: "fst (fst (genRpc env_fail rpc0 ''test'' ''rpc1'' ''/bin/x --rpc'' ''in'' [])) = [] \<and>
           snd (fst (genRpc env_fail rpc0 ''test'' ''rpc1'' ''/bin/x --rpc'' ''in'' [])) \<noteq> None"
    using t [where r = rpc0 and inp = "''in''", THEN conjunct2, THEN conjunct2, THEN conjunct1] 3
    by blast
  have d: "fst (config_Get env_fail config0 []) = []"
    using t [where c = config0, THEN conjunct2, THEN conjunct2, THEN conjunct2, THEN conjunct1] 4
    by blast
  have e: "fst (state_Get env_fail state0 []) = []"
    using t [where s = state0, THEN conjunct2, THEN conjunct2, THEN conjunct2, THEN conjunct2] 5
    by blast
  show ?thesis
    using f 1 2 3 4 5 a b c d e by simp
qed

text \<open>
  Config Get reports no failure: where the script exits with status 1 after writing \<open>X\<close>
  it returns what it returns where the script succeeds and writes nothing.
\<close>

theorem Get_failure_counterexample:
  "exits_nonzero env_fail [] (example_cmd [''/bin/g'', ''-a''] ''Config/Get'' None) \<and>
   config_Get env_fail config0 [] = ([], [Spawn (example_cmd [''/bin/g'', ''-a''] ''Config/Get'' None)]) \<and>
   \<not> exits_nonzero env_quiet [] (example_cmd [''/bin/g'', ''-a''] ''Config/Get'' None) \<and>
   config_Get env_quiet config0 [] = ([], [Spawn (example_cmd [''/bin/g'', ''-a''] ''Config/Get'' None)])"
  by (simp add: exits_nonzero_def env_fail_def env_quiet_def config_Get_def config0_def Output_def
      example_cmd_def)

subsection \<open>The environment of a script\<close>

text \<open>
  What each operation gives the process it starts: the command line split at spaces, the
  three variables, the model name being empty for Start and Stop, and the request payload
  on stdin where the operation has one.
\<close>

lemma spawned_environments:
  "c_get c \<noteq> [] \<Longrightarrow> snd (config_Get e c tr) =
     tr @ [Spawn \<lparr>argv = Split (c_get c) CHR '' '',
                   environ = [''VCI_COMPONENT_NAME='' @ c_compName c,
                              ''VCI_MODEL_NAME='' @ c_modelName c,
                              ''EPHEMERA_MESSAGE=Config/Get''],
                   stdin = None\<rparr>]"
  "c_set c \<noteq> [] \<Longrightarrow> snd (config_Set e c inp tr) =
     tr @ [Spawn \<lparr>argv = Split (c_set c) CHR '' '',
                   environ = [''VCI_COMPONENT_NAME='' @ c_compName c,
                              ''VCI_MODEL_NAME='' @ c_modelName c,
                              ''EPHEMERA_MESSAGE=Config/Set''],
                   stdin = Some inp\<rparr>]"
  "c_check c \<noteq> [] \<Longrightarrow> snd (config_Check e c inp tr) =
     tr @ [Spawn \<lparr>argv = Split (c_check c) CHR '' '',
                   environ = [''VCI_COMPONENT_NAME='' @ c_compName c,
                              ''VCI_MODEL_NAME='' @ c_modelName c,
                              ''EPHEMERA_MESSAGE=Config/Check''],
                   stdin = Some inp\<rparr>]"
  "s_get s \<noteq> [] \<Longrightarrow> snd (state_Get e s tr) =
     tr @ [Spawn \<lparr>argv = Split (s_get s) CHR '' '',
                   environ = [''VCI_COMPONENT_NAME='' @ s_compName s,
                              ''VCI_MODEL_NAME='' @ s_modelName s,
                              ''EPHEMERA_MESSAGE=State/Get''],
                   stdin = None\<rparr>]"
  "snd (genRpc e r module name command inp tr) =
     tr @ [Spawn \<lparr>argv = Split command CHR '' '',
                   environ = [''VCI_COMPONENT_NAME='' @ r_compName r,
                              ''VCI_MODEL_NAME='' @ r_modelName r,
                              ''EPHEMERA_MESSAGE=RPC/'' @ module @ ''/'' @ name],
                   stdin = Some inp\<rparr>]"
  "comp_start m \<noteq> [] \<Longrightarrow> snd (Component_Start e m tr) =
     tr @ [Spawn \<lparr>argv = Split (comp_start m) CHR '' '',
                   environ = [''VCI_COMPONENT_NAME='' @ comp_name m,
                              ''VCI_MODEL_NAME='',
                              ''EPHEMERA_MESSAGE=Start''],
                   stdin = None\<rparr>]"
  "comp_stop m \<noteq> [] \<Longrightarrow> snd (Component_Stop e m tr) =
     tr @ [Spawn \<lparr>argv = Split (comp_stop m) CHR '' '',
                   environ = [''VCI_COMPONENT_NAME='' @ comp_name m,
                              ''VCI_MODEL_NAME='',
                              ''EPHEMERA_MESSAGE=Stop''],
                   stdin = None\<rparr>]"
  by (simp_all add: config_Get_def config_Set_def config_Check_def state_Get_def genRpc_def
      Component_Start_def Component_Stop_def Output_def genEnvironment_def Let_def
      split: proc_result.splits)

text \<open>
  C6. The handler of \<^verbatim>\<open>RPC/test/rpc1\<close> takes the request payload and nothing else; the
  process it starts gets the three variables of \<^verbatim>\<open>genEnvironment\<close> and the payload on
  stdin, whatever the environment of the daemon is. There is no variable for the
  metadata of the call.
\<close>

theorem genRpc_invocation:
  "snd (genRpc e rpc0 ''test'' ''rpc1'' ''/bin/x --rpc'' ''{}'' []) =
     [Spawn \<lparr>argv = [''/bin/x'', ''--rpc''],
             environ = [''VCI_COMPONENT_NAME=c'', ''VCI_MODEL_NAME=m'',
                        ''EPHEMERA_MESSAGE=RPC/test/rpc1''],
             stdin = Some ''{}''\<rparr>]"
  by (simp add: genRpc_def rpc0_def Output_def genEnvironment_def Let_def split: proc_result.splits)

section \<open>Starting and stopping a runtime component\<close>

lemma script_runs_append: "script_runs l (xs @ ys) = script_runs l xs + script_runs l ys"
  by (simp add: script_runs_def)

lemma script_runs_bus [simp]:
  "script_runs l [BusRun v] = 0" "script_runs l [BusStop v] = 0"
  by (simp_all add: script_runs_def)

lemma Component_Start_runs:
  "comp_start m \<noteq> [] \<Longrightarrow>
   script_runs ''Start'' (snd (Component_Start e m tr)) = Suc (script_runs ''Start'' tr)"
  by (simp add: Component_Start_def Output_def Let_def script_runs_def genEnvironment_def
      split: proc_result.splits)

lemma Component_Stop_runs:
  "script_runs ''Stop'' (snd (Component_Stop e m tr)) \<le> Suc (script_runs ''Stop'' tr)"
  by (simp add: Component_Stop_def Output_def Let_def script_runs_def genEnvironment_def
      split: proc_result.splits)

lemma component_Run_running:
  "component_Running c w \<Longrightarrow> component_Run e c w = (None, w)"
  by (simp add: component_Run_def component_Running_def)

lemma component_Stop_stopped:
  "\<not> component_Running c w \<Longrightarrow> component_Stop e c w = (None, w)"
  by (simp add: component_Stop_def component_Running_def)

lemma component_Run_result:
  "\<not> component_Running c w \<Longrightarrow>
   component_Running c (snd (component_Run e c w)) = (fst (component_Run e c w) = None)"
  by (simp add: component_Run_def component_Running_def vci_Run_def Let_def case_prod_beta)

lemma component_Stop_result:
  "component_Running c w \<Longrightarrow>
   component_Running c (snd (component_Stop e c w)) = (fst (component_Stop e c w) \<noteq> None)"
  by (simp add: component_Stop_def component_Running_def vci_Stop_def Let_def case_prod_beta)

lemma component_Run_runs:
  "\<not> component_Running c w \<Longrightarrow> comp_start (meta c) \<noteq> [] \<Longrightarrow>
   script_runs ''Start'' (trace (snd (component_Run e c w))) = Suc (script_runs ''Start'' (trace w))"
  using Component_Start_runs [of "meta c" e "trace w"]
  by (simp add: component_Run_def component_Running_def vci_Run_def Let_def script_runs_append
      case_prod_beta)

lemma component_Stop_runs:
  "script_runs ''Stop'' (trace (snd (component_Stop e c w))) \<le> Suc (script_runs ''Stop'' (trace w))"
  using Component_Stop_runs [of e "meta c" "trace w"]
  by (simp add: component_Stop_def vci_Stop_def Let_def script_runs_append case_prod_beta)

text \<open>
  The error that Run returns is the answer of the bus, and a Run that returns an error
  leaves the component stopped.
\<close>

lemma component_Run_bus_error:
  "\<not> component_Running c w \<Longrightarrow>
   fst (component_Run e c w) = bus_run e (snd (Component_Start e (meta c) (trace w))) (vci c)"
  by (simp add: component_Run_def component_Running_def vci_Run_def Let_def case_prod_beta)

lemma component_Run_failed_not_running:
  "fst (component_Run e c w) = Some err \<Longrightarrow> \<not> component_Running c (snd (component_Run e c w))"
  by (cases "component_Running c w") (simp_all add: component_Run_running component_Run_result)

text \<open>
  C1. The start script of \<open>comp0\<close> exits with status 1 and \<^verbatim>\<open>Component.Start\<close> returns
  the error made from its stderr; \<^verbatim>\<open>component.Run\<close> on the stopped component still
  returns no error and leaves the component running.
\<close>

theorem Run_ignores_start_failure:
  "fst (Component_Start env_fail comp0 []) = Some (ExecError ''boom'') \<and>
   \<not> component_Running rt0 world0 \<and>
   fst (component_Run env_fail rt0 world0) = None \<and>
   component_Running rt0 (snd (component_Run env_fail rt0 world0))"
  by (simp add: Component_Start_def comp0_def Output_def env_fail_def unpackError_def
      component_Running_def rt0_def world0_def component_Run_def vci_Run_def)

text \<open>
  C7, as the code has it. Run twice in direct succession, on a stopped component with a
  start command whose first Run succeeds, starts the start script exactly once; Stop twice,
  where the first Stop succeeds, starts the stop script at most once. In both the second
  call changes nothing and returns success.
\<close>

theorem Run_twice_Stop_twice:
  "(\<not> component_Running c w \<and> comp_start (meta c) \<noteq> [] \<and> fst (component_Run e c w) = None \<longrightarrow>
      component_Run e c (snd (component_Run e c w)) = (None, snd (component_Run e c w)) \<and>
      script_runs ''Start'' (trace (snd (component_Run e c (snd (component_Run e c w))))) =
        Suc (script_runs ''Start'' (trace w))) \<and>
   (fst (component_Stop e c w) = None \<longrightarrow>
      component_Stop e c (snd (component_Stop e c w)) = (None, snd (component_Stop e c w)) \<and>
      script_runs ''Stop'' (trace (snd (component_Stop e c (snd (component_Stop e c w))))) \<le>
        Suc (script_runs ''Stop'' (trace w)))"
proof (intro conjI impI)
  assume a: "\<not> component_Running c w \<and> comp_start (meta c) \<noteq> [] \<and> fst (component_Run e c w) = None"
  then have r: "component_Running c (snd (component_Run e c w))"
    by (simp add: component_Run_result)
  show 1: "component_Run e c (snd (component_Run e c w)) = (None, snd (component_Run e c w))"
    using r by (rule component_Run_running)
  show "script_runs ''Start'' (trace (snd (component_Run e c (snd (component_Run e c w))))) =
        Suc (script_runs ''Start'' (trace w))"
    using a by (simp add: 1 component_Run_runs)
next
  assume a: "fst (component_Stop e c w) = None"
  have r: "\<not> component_Running c (snd (component_Stop e c w))"
  proof (cases "component_Running c w")
    case True
    with a show ?thesis by (simp add: component_Stop_result)
  next
    case False
    then show ?thesis by (simp add: component_Stop_stopped)
  qed
  show 1: "component_Stop e c (snd (component_Stop e c w)) = (None, snd (component_Stop e c w))"
    using r by (rule component_Stop_stopped)
  show "script_runs ''Stop'' (trace (snd (component_Stop e c (snd (component_Stop e c w))))) \<le>
        Suc (script_runs ''Stop'' (trace w))"
    by (simp add: 1 component_Stop_runs)
qed

theorem Run_twice_Stop_twice_witness:
  "(\<not> component_Running rt0 world0 \<and> comp_start (meta rt0) \<noteq> [] \<and>
    fst (component_Run env_quiet rt0 world0) = None) \<and>
   component_Run env_quiet rt0 (snd (component_Run env_quiet rt0 world0)) =
     (None, snd (component_Run env_quiet rt0 world0)) \<and>
   script_runs ''Start''
     (trace (snd (component_Run env_quiet rt0 (snd (component_Run env_quiet rt0 world0))))) =
     Suc (script_runs ''Start'' (trace world0)) \<and>
   fst (component_Stop env_quiet rt0 world1) = None \<and>
   component_Stop env_quiet rt0 (snd (component_Stop env_quiet rt0 world1)) =
     (None, snd (component_Stop env_quiet rt0 world1)) \<and>
   script_runs ''Stop''
     (trace (snd (component_Stop env_quiet rt0 (snd (component_Stop env_quiet rt0 world1))))) \<le>
     Suc (script_runs ''Stop'' (trace world1))"
proof -
  have h1: "\<not> component_Running rt0 world0 \<and> comp_start (meta rt0) \<noteq> [] \<and>
    fst (component_Run env_quiet rt0 world0) = None"
    by (simp add: component_Running_def rt0_def world0_def comp0_def component_Run_def
        Component_Start_def Output_def env_quiet_def vci_Run_def)
  have h2: "fst (component_Stop env_quiet rt0 world1) = None"
    by (simp add: component_Running_def rt0_def world1_def comp0_def component_Stop_def
        Component_Stop_def Output_def env_quiet_def vci_Stop_def)
  show ?thesis
    using h1 h2 Run_twice_Stop_twice [of rt0 world0 env_quiet]
      Run_twice_Stop_twice [of rt0 world1 env_quiet]
    by blast
qed

text \<open>
  When the first call fails the running flag is what it was and the second call runs the
  script again.
\<close>

lemma Component_Stop_runs_exact:
  "comp_stop m \<noteq> [] \<Longrightarrow>
   script_runs ''Stop'' (snd (Component_Stop e m tr)) = Suc (script_runs ''Stop'' tr)"
  by (simp add: Component_Stop_def Output_def Let_def script_runs_def genEnvironment_def
      split: proc_result.splits)

lemma component_Stop_runs_exact:
  "component_Running c w \<Longrightarrow> comp_stop (meta c) \<noteq> [] \<Longrightarrow>
   script_runs ''Stop'' (trace (snd (component_Stop e c w))) = Suc (script_runs ''Stop'' (trace w))"
  using Component_Stop_runs_exact [of "meta c" e "trace w"]
  by (simp add: component_Stop_def component_Running_def vci_Stop_def Let_def script_runs_append
      case_prod_beta)

lemma Run_again_after_failure:
  assumes "\<not> component_Running c w" "comp_start (meta c) \<noteq> []"
    "fst (component_Run e c w) = Some err"
  shows "\<not> component_Running c (snd (component_Run e c w)) \<and>
         script_runs ''Start'' (trace (snd (component_Run e c (snd (component_Run e c w))))) =
           Suc (Suc (script_runs ''Start'' (trace w)))"
proof -
  from assms(1,3) have r: "\<not> component_Running c (snd (component_Run e c w))"
    by (simp add: component_Run_result)
  from r assms(2) have "script_runs ''Start''
      (trace (snd (component_Run e c (snd (component_Run e c w))))) =
      Suc (script_runs ''Start'' (trace (snd (component_Run e c w))))"
    by (rule component_Run_runs)
  with r assms(1,2) show ?thesis by (simp add: component_Run_runs)
qed

lemma Stop_again_after_failure:
  assumes "component_Running c w" "comp_stop (meta c) \<noteq> []"
    "fst (component_Stop e c w) = Some err"
  shows "component_Running c (snd (component_Stop e c w)) \<and>
         script_runs ''Stop'' (trace (snd (component_Stop e c (snd (component_Stop e c w))))) =
           Suc (Suc (script_runs ''Stop'' (trace w)))"
proof -
  from assms(1,3) have r: "component_Running c (snd (component_Stop e c w))"
    by (simp add: component_Stop_result)
  from r assms(2) have "script_runs ''Stop''
      (trace (snd (component_Stop e c (snd (component_Stop e c w))))) =
      Suc (script_runs ''Stop'' (trace (snd (component_Stop e c w))))"
    by (rule component_Stop_runs_exact)
  with r assms(1,2) show ?thesis by (simp add: component_Stop_runs_exact)
qed

text \<open>
  Where the bus refuses the registration the flag stays as it was, and the second call
  runs the script again: two Runs start the start script twice, two Stops the stop script
  twice.
\<close>

theorem Run_twice_counterexample:
  "\<not> component_Running rt0 world0 \<and>
   script_runs ''Start''
     (trace (snd (component_Run env_bus_down rt0 (snd (component_Run env_bus_down rt0 world0))))) = 2 \<and>
   script_runs ''Stop''
     (trace (snd (component_Stop env_bus_down rt0 (snd (component_Stop env_bus_down rt0 world1))))) = 2"
  by (simp add: component_Running_def rt0_def world0_def world1_def comp0_def component_Run_def
      component_Stop_def Component_Start_def Component_Stop_def Output_def env_bus_down_def
      vci_Run_def vci_Stop_def script_runs_def genEnvironment_def)

section \<open>Activate and Deactivate\<close>

text \<open>
  C9. For a name that the snapshot does not hold, Activate and Deactivate return the
  not-found error and leave the world as it is (no Start, no Stop, no change of a running
  flag); for a name it holds they do what Run, respectively Stop, does to the world and
  return its error, or the empty tree when there is none.
\<close>

theorem Activate_Deactivate_lookup:
  "(map_of cs name = None \<longrightarrow>
      Activate e cs name w =
        (Inl (ErrorString (''no component by the name '' @ name @ '' found'')), w) \<and>
      Deactivate e cs name w =
        (Inl (ErrorString (''no component by the name '' @ name @ '' found'')), w)) \<and>
   (map_of cs name = Some c \<longrightarrow>
      snd (Activate e cs name w) = snd (component_Run e c w) \<and>
      fst (Activate e cs name w) =
        (case fst (component_Run e c w) of None \<Rightarrow> Inr TreeNew | Some err \<Rightarrow> Inl err) \<and>
      snd (Deactivate e cs name w) = snd (component_Stop e c w) \<and>
      fst (Deactivate e cs name w) =
        (case fst (component_Stop e c w) of None \<Rightarrow> Inr TreeNew | Some err \<Rightarrow> Inl err))"
  by (simp add: Activate_def Deactivate_def split: prod.splits option.splits)

theorem Activate_Deactivate_lookup_witness:
  "map_of [(''c'', rt0)] ''d'' = None \<and>
   Activate env_fail [(''c'', rt0)] ''d'' world0 =
     (Inl (ErrorString ''no component by the name d found''), world0) \<and>
   Deactivate env_fail [(''c'', rt0)] ''d'' world0 =
     (Inl (ErrorString ''no component by the name d found''), world0) \<and>
   map_of [(''c'', rt0)] ''c'' = Some rt0 \<and>
   snd (Activate env_bus_down [(''c'', rt0)] ''c'' world0) = snd (component_Run env_bus_down rt0 world0) \<and>
   fst (Activate env_bus_down [(''c'', rt0)] ''c'' world0) = Inl (ErrorString ''bus'') \<and>
   snd (Deactivate env_quiet [(''c'', rt0)] ''c'' world1) = snd (component_Stop env_quiet rt0 world1) \<and>
   fst (Deactivate env_quiet [(''c'', rt0)] ''c'' world1) = Inr TreeNew"
proof -
  have 1: "map_of [(''c'', rt0)] ''d'' = None" by simp
  have 2: "map_of [(''c'', rt0)] ''c'' = Some rt0" by simp
  have 3: "fst (component_Run env_bus_down rt0 world0) = Some (ErrorString ''bus'')"
    by (simp add: rt0_def world0_def comp0_def component_Run_def
        Component_Start_def Output_def env_bus_down_def vci_Run_def)
  have 4: "fst (component_Stop env_quiet rt0 world1) = None"
    by (simp add: rt0_def world1_def comp0_def component_Stop_def
        Component_Stop_def Output_def env_quiet_def vci_Stop_def)
  show ?thesis
    using 1 2 3 4
      Activate_Deactivate_lookup [of "[(''c'', rt0)]" "''d''" env_fail world0 rt0]
      Activate_Deactivate_lookup [of "[(''c'', rt0)]" "''c''" env_bus_down world0 rt0]
      Activate_Deactivate_lookup [of "[(''c'', rt0)]" "''c''" env_quiet world1 rt0]
    by simp
qed

lemma Activate_failed_not_running:
  "map_of cs name = Some c \<Longrightarrow> fst (Activate e cs name w) = Inl err \<Longrightarrow>
   \<not> component_Running c (snd (Activate e cs name w))"
  using component_Run_failed_not_running [of e c w]
  by (auto simp: Activate_def split: prod.splits option.splits)

section \<open>Parsing an instance file\<close>

lemma Section_Key_not_nil: "Section_Key sec name \<noteq> None"
  by (simp add: Section_Key_def split: option.splits)

lemma MustString_Section_Key: "MustString (Section_Key sec name) [] = index0 (sec_keys sec) name"
  by (simp add: Section_Key_def index0_def split: option.splits)

text \<open>
  The model of a section has a Config and a State whatever keys the section holds; their
  strings are the values of the keys, and the empty string for a key that is missing.
\<close>

lemma modelNew_config:
  "m_config (modelNew compName name sec) =
     Some \<lparr>c_compName = compName, c_modelName = name,
           c_get = index0 (sec_keys sec) ''Config/Get'',
           c_set = index0 (sec_keys sec) ''Config/Set'',
           c_check = index0 (sec_keys sec) ''Config/Check''\<rparr>"
  by (simp add: modelNew_def configNew_def Let_def Section_Key_not_nil MustString_Section_Key)

lemma modelNew_state:
  "m_state (modelNew compName name sec) =
     Some \<lparr>s_compName = compName, s_modelName = name,
           s_get = index0 (sec_keys sec) ''State/Get''\<rparr>"
  by (simp add: modelNew_def stateNew_def Let_def Section_Key_not_nil MustString_Section_Key)

text \<open>A section name with the prefix has a second piece, so the index 1 is in range.\<close>

lemma length_Split: "length (Split s sep) = Suc (length (filter (\<lambda>c. c = sep) s))"
  by (induction s) (auto split: list.splits)

lemma Split_Model_name:
  assumes "HasPrefix n ''Model ''"
  shows "2 \<le> length (Split n CHR '' '')"
proof -
  from assms have "CHR '' '' \<in> set (take (length ''Model '') n)"
    by (simp only: HasPrefix_def) simp
  then have "CHR '' '' \<in> set n" by (rule in_set_takeD)
  then have "filter (\<lambda>c. c = CHR '' '') n \<noteq> []"
    by (simp add: filter_empty_conv)
  then obtain c cs where "filter (\<lambda>c. c = CHR '' '') n = c # cs"
    by (cases "filter (\<lambda>c. c = CHR '' '') n") auto
  then show ?thesis by (simp add: length_Split)
qed
lemma wf_map_update: "wf_map m \<Longrightarrow> wf_map (AList.update k v m)"
  by (simp add: wf_map_def distinct_update)

lemma list_all_update:
  "list_all P m \<Longrightarrow> P (k, v) \<Longrightarrow> list_all P (AList.update k v m)"
  by (induction m) auto

lemma map_of_list_all: "list_all P m \<Longrightarrow> map_of m k = Some v \<Longrightarrow> P (k, v)"
  by (auto simp: list_all_iff dest: map_of_SomeD)

lemma wf_modules_step: "wf_modules ms \<Longrightarrow> wf_modules (rpcNew_step k ms)"
proof -
  assume wf: "wf_modules ms"
  have inner: "wf_map (case map_of ms module of None \<Rightarrow> [] | Some rpcs \<Rightarrow> rpcs)" for module
    using wf map_of_list_all [of "\<lambda>(module, names). wf_map names \<and> names \<noteq> []" ms module]
    by (auto simp: wf_modules_def wf_map_def split: option.splits)
  show ?thesis
    using wf inner
    by (auto simp: rpcNew_step_def Let_def wf_modules_def wf_map_update intro!: list_all_update)
qed

lemma wf_modules_fold: "wf_modules ms \<Longrightarrow> wf_modules (fold rpcNew_step ks ms)"
  by (induction ks arbitrary: ms) (simp_all add: wf_modules_step)

lemma wf_modules_Nil: "wf_modules []"
  by (simp add: wf_modules_def wf_map_def)

lemma wf_modelNew: "wf_Model (modelNew compName name sec)"
  by (simp add: wf_Model_def modelNew_def rpcNew_def Let_def wf_modules_fold wf_modules_Nil)

lemma wf_instantiate_step:
  "wf_map ms \<and> list_all (\<lambda>(k, m). wf_Model m) ms \<Longrightarrow>
   wf_map (instantiate_step name sec ms) \<and>
   list_all (\<lambda>(k, m). wf_Model m) (instantiate_step name sec ms)"
  by (auto simp: instantiate_step_def Let_def wf_map_update wf_modelNew intro!: list_all_update)

lemma wf_instantiate_fold:
  "wf_map ms \<and> list_all (\<lambda>(k, m). wf_Model m) ms \<Longrightarrow>
   wf_map (fold (instantiate_step name) cfg ms) \<and>
   list_all (\<lambda>(k, m). wf_Model m) (fold (instantiate_step name) cfg ms)"
proof (induction cfg arbitrary: ms)
  case Nil
  then show ?case by simp
next
  case (Cons sec cfg)
  from Cons.prems have "wf_map (instantiate_step name sec ms) \<and>
     list_all (\<lambda>(k, m). wf_Model m) (instantiate_step name sec ms)"
    by (rule wf_instantiate_step)
  then show ?case using Cons.IH by simp
qed

lemma New_From:
  "New fs [From p] =
     (case ini_Load fs p of
        Inl err \<Rightarrow> Inl err
      | Inr cfg \<Rightarrow>
          Inr \<lparr>instanceFile = p,
               comp_name = MustString (Section_Key (File_Section cfg ''Component'') ''Name'') [],
               comp_start = MustString (Section_Key (File_Section cfg ''Component'') ''Start'') [],
               comp_stop = MustString (Section_Key (File_Section cfg ''Component'') ''Stop'') [],
               comp_models =
                 fold (instantiate_step
                        (MustString (Section_Key (File_Section cfg ''Component'') ''Name'') []))
                      cfg []\<rparr>)"
  by (simp add: New_def From_def instantiate_def Let_def split: sum.splits)

lemma wf_New: "New fs [From p] = Inr c \<Longrightarrow> wf_Component c"
  using wf_instantiate_fold [of "[]"]
  by (auto simp: New_From wf_Component_def wf_map_def split: sum.splits)

lemma HasPrefix_RPC: "HasPrefix ''RPC/test/rpc1'' ''RPC/''" by (simp add: HasPrefix_def)

lemma modelNew_m:
  "modelNew ''c'' ''m'' \<lparr>sec_Name = ''Model m'',
       sec_keys = [(''Config/Get'', ''/bin/g''), (''RPC/test/rpc1'', ''/bin/x'')]\<rparr> =
   \<lparr>m_name = ''m'',
                  m_config = Some \<lparr>c_compName = ''c'', c_modelName = ''m'', c_get = ''/bin/g'',
                                   c_set = [], c_check = []\<rparr>,
                  m_state = Some \<lparr>s_compName = ''c'', s_modelName = ''m'', s_get = []\<rparr>,
                  m_rpc = Some \<lparr>r_compName = ''c'', r_modelName = ''m'',
                                r_modules = [(''test'', [(''rpc1'', ''/bin/x'')])]\<rparr>\<rparr>"
  by (simp add: modelNew_def configNew_def stateNew_def rpcNew_def Section_Key_def Section_Keys_def
      rpcNew_step_def HasPrefix_def Let_def)

lemma New_file0: "New fs0 [From ''/i/a''] = Inr compA"
  by (simp add: New_From fs0_def file0_def compA_def File_Section_def Section_Key_def
      instantiate_step_def HasPrefix_def Let_def modelNew_m)


text \<open>
  C3. The file \<open>file1\<close> declares the component \<open>c\<close> with the model \<open>m\<close>, which has the
  key \<^verbatim>\<open>Config/Get\<close> only, and the model \<open>n\<close>, which has no key. The component parsed
  from it has the name and the two models of the file and the Config/Get command of \<open>m\<close>;
  both models have a Config record and a State record whose missing commands are empty
  strings, and \<^verbatim>\<open>Model.Config()\<close> and \<^verbatim>\<open>Model.State()\<close> report them as present. Only
  the RPC set is absent.
\<close>

theorem New_absent_keys:
  "New fs0 [From ''/i/n''] = Inr compN \<and>
   list_all (\<lambda>(k, m). snd (Model_Config m) \<and> snd (Model_State m) \<and> \<not> snd (Model_RPC e m))
     (comp_models compN)"
  by (simp add: New_From fs0_def file1_def compN_def File_Section_def Section_Key_def
      instantiate_step_def HasPrefix_def Let_def modelNew_def configNew_def stateNew_def rpcNew_def
      Section_Keys_def rpcNew_step_def Model_Config_def Model_State_def Model_RPC_def)

section \<open>Equality of models and components\<close>

lemma index0_member: "wf_map names \<Longrightarrow> (name, script) \<in> set names \<Longrightarrow> index0 names name = script"
  by (simp add: wf_map_def index0_def)

lemma modules_in_refl: "wf_modules ms \<Longrightarrow> modules_in ms ms"
  unfolding modules_in_def list_all_iff
proof (intro ballI)
  fix x assume wf: "wf_modules ms" and x: "x \<in> set ms"
  obtain module names where mx: "x = (module, names)" by (cases x)
  from wf x mx have look: "map_of ms module = Some names"
    by (simp add: wf_modules_def wf_map_def)
  from wf x mx have wn: "wf_map names"
    by (auto simp: wf_modules_def list_all_iff)
  show "case x of (module, names) \<Rightarrow>
          (case map_of ms module of None \<Rightarrow> False
           | Some oNames \<Rightarrow> \<forall>x\<in>set names. case x of (name, script) \<Rightarrow> index0 oNames name = script)"
    using look wn by (auto simp: mx index0_member)
qed

lemma rpc_Equal_same:
  "wf_modules (r_modules r) \<Longrightarrow> r_modules r' = r_modules r \<Longrightarrow> rpc_Equal r (Some r') = Inr True"
  by (simp add: rpc_Equal_def modules_in_refl)

lemma andalso_True [simp]: "andalso (Inr True) b = b"
  by (simp add: andalso_def)

lemma andalso_False [simp]: "andalso (Inr False) b = Inr False"
  by (simp add: andalso_def)

lemma andalso_eq_True: "andalso a b = Inr True \<longleftrightarrow> a = Inr True \<and> b = Inr True"
  by (auto simp: andalso_def split: sum.splits)

lemma range_all_True:
  "(\<And>x. x \<in> set xs \<Longrightarrow> test x = Inr True) \<Longrightarrow> range_all test xs = Inr True"
  by (induction xs) simp_all

lemma Model_Equal_refl: "wf_Model m \<Longrightarrow> Model_Equal m (Some m) = Inr True"
proof -
  assume wf: "wf_Model m"
  have 1: "dyn_Equal config_Equal (m_config m) (m_config m) = Inr True"
    by (cases "m_config m") (simp_all add: dyn_Equal_def config_Equal_def)
  have 2: "dyn_Equal state_Equal (m_state m) (m_state m) = Inr True"
    by (cases "m_state m") (simp_all add: dyn_Equal_def state_Equal_def)
  have 3: "dyn_Equal rpc_Equal (m_rpc m) (m_rpc m) = Inr True"
    using wf by (cases "m_rpc m") (simp_all add: dyn_Equal_def wf_Model_def rpc_Equal_same)
  show ?thesis by (simp add: Model_Equal_def 1 2 3)
qed

lemma equalModels_same:
  assumes "wf_Component c" "comp_models d = comp_models c"
  shows "equalModels c d = Inr True"
proof -
  have "dyn_Equal Model_Equal (Some v) (map_of (comp_models c) k) = Inr True"
    if "(k, v) \<in> set (comp_models c)" for k v
  proof -
    from that assms(1) have "map_of (comp_models c) k = Some v"
      by (simp add: wf_Component_def wf_map_def)
    moreover from that assms(1) have "wf_Model v"
      by (auto simp: wf_Component_def list_all_iff)
    ultimately show ?thesis by (simp add: dyn_Equal_def Model_Equal_refl)
  qed
  then have "range_all (\<lambda>(k, v). dyn_Equal Model_Equal (Some v) (map_of (comp_models c) k))
               (comp_models c) = Inr True"
    by (intro range_all_True) auto
  then show ?thesis
    by (simp add: equalModels_def assms(2))
qed

lemma Component_Equal_same:
  assumes "wf_Component c" "comp_models d = comp_models c" "comp_name d = comp_name c"
    "comp_start d = comp_start c" "comp_stop d = comp_stop c"
  shows "Component_Equal c (Some d) = Inr True"
  using assms by (simp add: Component_Equal_def equalModels_same)

lemma wf_Component_cong: "comp_models d = comp_models c \<Longrightarrow> wf_Component d = wf_Component c"
  by (simp add: wf_Component_def)

lemma config_Equal_names:
  "config_Equal (c\<lparr>c_compName := a, c_modelName := b\<rparr>) (Some (oc\<lparr>c_compName := a', c_modelName := b'\<rparr>)) =
   config_Equal c (Some oc)"
  by (simp add: config_Equal_def)

lemma state_Equal_names:
  "state_Equal (c\<lparr>s_compName := a, s_modelName := b\<rparr>) (Some (oc\<lparr>s_compName := a', s_modelName := b'\<rparr>)) =
   state_Equal c (Some oc)"
  by (simp add: state_Equal_def)

lemma Component_Equal_instanceFile:
  "Component_Equal (c\<lparr>instanceFile := f\<rparr>) (Some (oc\<lparr>instanceFile := g\<rparr>)) =
   Component_Equal c (Some oc)"
  by (simp add: Component_Equal_def equalModels_def)

text \<open>
  C10. Two paths that hold the same instance file parse into components that differ in
  their \<open>instanceFile\<close> and that \<^verbatim>\<open>dyn.Equal\<close>, the test of the reconciliation, finds equal
  in both directions; neither comparison panics.
\<close>

theorem Equal_ignores_provenance:
  assumes "ini_Load fs p = Inr cfg" "ini_Load fs q = Inr cfg"
  shows "\<exists>c d. New fs [From p] = Inr c \<and> New fs [From q] = Inr d \<and>
               instanceFile c = p \<and> instanceFile d = q \<and>
               dyn_Equal Component_Equal (Some c) (Some d) = Inr True \<and>
               dyn_Equal Component_Equal (Some d) (Some c) = Inr True"
proof -
  obtain c where c: "New fs [From p] = Inr c" and cp: "instanceFile c = p"
    using assms(1) by (simp add: New_From)
  obtain d where d: "New fs [From q] = Inr d" and dq: "instanceFile d = q"
    using assms(2) by (simp add: New_From)
  from c d assms have same: "comp_models d = comp_models c" "comp_name d = comp_name c"
    "comp_start d = comp_start c" "comp_stop d = comp_stop c"
    by (auto simp: New_From)
  have wfc: "wf_Component c" using c by (rule wf_New)
  have wfd: "wf_Component d" using d by (rule wf_New)
  have "Component_Equal c (Some d) = Inr True"
    using wfc same by (rule Component_Equal_same)
  moreover have "Component_Equal d (Some c) = Inr True"
    using wfd same by (simp add: Component_Equal_same)
  ultimately show ?thesis
    using c d cp dq by (simp add: dyn_Equal_def)
qed

theorem Equal_ignores_provenance_witness:
  "ini_Load fs0 ''/i/a'' = Inr file0 \<and> ini_Load fs0 ''/i/b'' = Inr file0 \<and>
   (\<exists>c d. New fs0 [From ''/i/a''] = Inr c \<and> New fs0 [From ''/i/b''] = Inr d \<and>
          instanceFile c = ''/i/a'' \<and> instanceFile d = ''/i/b'' \<and>
          dyn_Equal Component_Equal (Some c) (Some d) = Inr True \<and>
          dyn_Equal Component_Equal (Some d) (Some c) = Inr True)"
proof -
  have 1: "ini_Load fs0 ''/i/a'' = Inr file0" by (simp add: fs0_def)
  have 2: "ini_Load fs0 ''/i/b'' = Inr file0" by (simp add: fs0_def)
  from 1 2 Equal_ignores_provenance [OF 1 2] show ?thesis by blast
qed

lemma triples_iff:
  "(m, n, s) \<in> set (triples ms) \<longleftrightarrow> (\<exists>names. (m, names) \<in> set ms \<and> (n, s) \<in> set names)"
  by (auto simp: triples_def)

lemma wf_modules_lookup:
  "wf_modules ms \<Longrightarrow> (m, names) \<in> set ms \<Longrightarrow> map_of ms m = Some names"
  by (simp add: wf_modules_def wf_map_def)

lemma wf_modules_inner:
  "wf_modules ms \<Longrightarrow> (m, names) \<in> set ms \<Longrightarrow> wf_map names \<and> names \<noteq> []"
  by (auto simp: wf_modules_def list_all_iff)

lemma triples_lookup:
  assumes "wf_modules ms" "(m, n, s) \<in> set (triples ms)"
  shows "\<exists>names. map_of ms m = Some names \<and> index0 names n = s"
proof -
  from assms(2) obtain names where a: "(m, names) \<in> set ms" and b: "(n, s) \<in> set names"
    by (auto simp: triples_iff)
  from assms(1) a have "map_of ms m = Some names" by (rule wf_modules_lookup)
  moreover from wf_modules_inner [OF assms(1) a] b have "index0 names n = s"
    by (simp add: index0_member)
  ultimately show ?thesis by blast
qed

lemma modules_in_triples:
  assumes wx: "wf_modules xs" and wy: "wf_modules ys"
    and sub: "set (triples xs) \<subseteq> set (triples ys)"
  shows "modules_in xs ys"
  unfolding modules_in_def list_all_iff
proof (intro ballI)
  fix x assume x: "x \<in> set xs"
  obtain m names where mx: "x = (m, names)" by (cases x)
  from wf_modules_inner [OF wx] x mx have ne: "names \<noteq> []" by blast
  then obtain n s where ns: "(n, s) \<in> set names" by (cases names) auto
  with x mx have "(m, n, s) \<in> set (triples xs)" by (auto simp: triples_iff)
  with sub have "(m, n, s) \<in> set (triples ys)" by blast
  from triples_lookup [OF wy this] obtain oNames where o: "map_of ys m = Some oNames"
    by blast
  have "index0 oNames n' = s'" if "(n', s') \<in> set names" for n' s'
  proof -
    from that x mx have "(m, n', s') \<in> set (triples xs)" by (auto simp: triples_iff)
    with sub have "(m, n', s') \<in> set (triples ys)" by blast
    from triples_lookup [OF wy this] o show ?thesis by simp
  qed
  then show "case x of (module, names) \<Rightarrow>
          (case map_of ys module of None \<Rightarrow> False
           | Some oNames \<Rightarrow> \<forall>x\<in>set names. case x of (name, script) \<Rightarrow> index0 oNames name = script)"
    using o by (auto simp: mx)
qed

lemma wf_modules_keys:
  assumes "wf_modules ms"
  shows "fst ` set ms = fst ` set (triples ms)"
proof
  show "fst ` set ms \<subseteq> fst ` set (triples ms)"
  proof
    fix m assume "m \<in> fst ` set ms"
    then obtain names where a: "(m, names) \<in> set ms" by auto
    from wf_modules_inner [OF assms a] obtain n s where "(n, s) \<in> set names"
      by (cases names) auto
    with a have "(m, n, s) \<in> set (triples ms)" by (auto simp: triples_iff)
    then show "m \<in> fst ` set (triples ms)" by force
  qed
  show "fst ` set (triples ms) \<subseteq> fst ` set ms"
    by (force simp: triples_iff)
qed

lemma wf_modules_length:
  assumes "wf_modules xs" "wf_modules ys" "set (triples xs) = set (triples ys)"
  shows "length xs = length ys"
proof -
  have "length xs = card (fst ` set xs)"
    using assms(1) by (metis wf_modules_def wf_map_def distinct_card length_map set_map)
  also have "\<dots> = card (fst ` set ys)"
    using assms by (simp add: wf_modules_keys)
  also have "\<dots> = length ys"
    using assms(2) by (metis wf_modules_def wf_map_def distinct_card length_map set_map)
  finally show ?thesis .
qed

lemma rpc_Equal_triples:
  assumes "wf_modules (r_modules x)" "wf_modules (r_modules y)"
    "set (triples (r_modules x)) = set (triples (r_modules y))"
  shows "rpc_Equal x (Some y) = Inr True"
  using assms wf_modules_length [OF assms]
  by (simp add: rpc_Equal_def modules_in_triples)

lemma rpc_Equal_differs:
  assumes wy: "wf_modules (r_modules y)"
    and a: "(m, n, s) \<in> set (triples (r_modules x))"
    and b: "(m, n, s') \<in> set (triples (r_modules y))" and ne: "s' \<noteq> s"
  shows "rpc_Equal x (Some y) = Inr False"
proof (rule ccontr)
  assume "rpc_Equal x (Some y) \<noteq> Inr False"
  then have eq: "rpc_Equal x (Some y) = Inr True"
    by (simp add: rpc_Equal_def)
  then have mi: "modules_in (r_modules x) (r_modules y)"
    by (simp add: rpc_Equal_def split: if_splits)
  from a obtain names where 1: "(m, names) \<in> set (r_modules x)" and 2: "(n, s) \<in> set names"
    by (auto simp: triples_iff)
  from triples_lookup [OF wy b] obtain oNames where
    o: "map_of (r_modules y) m = Some oNames" and i: "index0 oNames n = s'" by blast
  from mi 1 o have "list_all (\<lambda>(name, script). index0 oNames name = script) names"
    by (force simp: modules_in_def list_all_iff)
  with 2 have "index0 oNames n = s"
    by (force simp: list_all_iff)
  with i ne show False by simp
qed

text \<open>
  Where equality is structural. For two models whose maps are Go maps: when they have the
  same name and the same commands they are equal, whatever the order of their maps and
  whatever component and model names their sub-entities carry; when they differ in a
  Config string, in the State string, or in the command of an RPC operation that both
  have, they are not equal.
\<close>

lemma Model_Equal_common_operations:
  assumes "wf_Model a" "wf_Model b"
  shows "(same_commands a b \<longrightarrow> Model_Equal a (Some b) = Inr True) \<and>
         (command_differs a b \<longrightarrow> Model_Equal a (Some b) \<noteq> Inr True)"
proof (intro conjI impI)
  assume s: "same_commands a b"
  have 1: "dyn_Equal config_Equal (m_config a) (m_config b) = Inr True"
    using s by (cases "m_config a"; cases "m_config b")
      (simp_all add: same_commands_def dyn_Equal_def config_Equal_def)
  have 2: "dyn_Equal state_Equal (m_state a) (m_state b) = Inr True"
    using s by (cases "m_state a"; cases "m_state b")
      (simp_all add: same_commands_def dyn_Equal_def state_Equal_def)
  have 3: "dyn_Equal rpc_Equal (m_rpc a) (m_rpc b) = Inr True"
    using s assms by (cases "m_rpc a"; cases "m_rpc b")
      (simp_all add: same_commands_def dyn_Equal_def wf_Model_def rpc_Equal_triples)
  from s 1 2 3 show "Model_Equal a (Some b) = Inr True"
    by (simp add: Model_Equal_def same_commands_def)
next
  assume d: "command_differs a b"
  show "Model_Equal a (Some b) \<noteq> Inr True"
  proof
    assume eq: "Model_Equal a (Some b) = Inr True"
    then have e1: "dyn_Equal config_Equal (m_config a) (m_config b) = Inr True"
      and e2: "dyn_Equal state_Equal (m_state a) (m_state b) = Inr True"
      and e3: "dyn_Equal rpc_Equal (m_rpc a) (m_rpc b) = Inr True"
      by (simp_all add: Model_Equal_def andalso_eq_True)
    have c1: "\<not> (case (m_config a, m_config b) of
         (Some x, Some y) \<Rightarrow> c_get x \<noteq> c_get y \<or> c_set x \<noteq> c_set y \<or> c_check x \<noteq> c_check y
       | _ \<Rightarrow> False)"
      using e1 by (auto simp: dyn_Equal_def config_Equal_def split: option.splits)
    have c2: "\<not> (case (m_state a, m_state b) of
         (Some x, Some y) \<Rightarrow> s_get x \<noteq> s_get y
       | _ \<Rightarrow> False)"
      using e2 by (auto simp: dyn_Equal_def state_Equal_def split: option.splits)
    from d c1 c2 obtain x y where x: "m_rpc a = Some x" and y: "m_rpc b = Some y"
      and ex: "list_ex (\<lambda>(module, name, script).
              list_ex (\<lambda>(module', name', script').
                 module' = module \<and> name' = name \<and> script' \<noteq> script) (triples (r_modules y)))
             (triples (r_modules x))"
      unfolding command_differs_def by (auto split: option.splits)
    from ex obtain m n s s' where "(m, n, s) \<in> set (triples (r_modules x))"
      "(m, n, s') \<in> set (triples (r_modules y))" "s' \<noteq> s"
      by (auto simp: list_ex_iff)
    moreover from assms(2) y have "wf_modules (r_modules y)" by (simp add: wf_Model_def)
    ultimately have "rpc_Equal x (Some y) = Inr False" by (rule rpc_Equal_differs [rotated])
    with e3 x y show False by (simp add: dyn_Equal_def)
  qed
qed

lemma Model_Equal_common_operations_example:
  "wf_Model model_ab \<and> wf_Model model_ba \<and> wf_Model model_ac \<and>
   same_commands model_ab model_ba \<and> Model_Equal model_ab (Some model_ba) = Inr True \<and>
   command_differs model_ab model_ac \<and> Model_Equal model_ab (Some model_ac) \<noteq> Inr True"
proof -
  have 1: "wf_Model model_ab" "wf_Model model_ba" "wf_Model model_ac"
    by (simp_all add: wf_Model_def wf_modules_def wf_map_def model_ab_def model_ba_def
        model_ac_def rpc_ab_def rpc_ba_def rpc_ac_def)
  have 2: "same_commands model_ab model_ba"
    by (auto simp: same_commands_def model_ab_def model_ba_def rpc_ab_def rpc_ba_def triples_def)
  have 3: "command_differs model_ab model_ac"
    by (simp add: command_differs_def model_ab_def model_ac_def rpc_ab_def rpc_ac_def triples_def)
  from 1 2 3 Model_Equal_common_operations [OF 1(1) 1(2)]
    Model_Equal_common_operations [OF 1(1) 1(3)]
  show ?thesis by blast
qed

text \<open>
  The commands compared are those of operations that both RPC sets have: \<^verbatim>\<open>rpc.Equal\<close>
  indexes the other map and reads the empty string for a missing operation, so two sets
  whose operations differ in name and are all bound to the empty command are equal.
\<close>

lemma rpc_Equal_empty_commands:
  "rpc_Equal \<lparr>r_compName = ''c'', r_modelName = ''m'', r_modules = [(''t'', [(''a'', [])])]\<rparr>
     (Some \<lparr>r_compName = ''c'', r_modelName = ''m'', r_modules = [(''t'', [(''b'', [])])]\<rparr>) =
   Inr True"
  by (simp add: rpc_Equal_def modules_in_def index0_def)

text \<open>
  C8. The models of the sections \<open>sec_a\<close> and \<open>sec_ab\<close> have the same name, Config and
  State, and their RPC sets differ: the second has the operation \<open>b\<close> of the module \<open>t\<close>,
  bound to the empty command, and the first has no such operation. \<^verbatim>\<open>Model.Equal\<close> finds
  them equal in both directions. Against the model of \<open>sec_none\<close>, which has no RPC key
  and so no RPC set, the comparison does not return: \<^verbatim>\<open>rpc.Equal\<close> reads the modules of
  its \<^verbatim>\<open>nil\<close> operand.
\<close>

theorem Model_Equal_empty_command:
  "m_rpc (modelNew ''c'' ''m'' sec_a) =
     Some \<lparr>r_compName = ''c'', r_modelName = ''m'', r_modules = [(''t'', [(''a'', ''/x'')])]\<rparr> \<and>
   m_rpc (modelNew ''c'' ''m'' sec_ab) =
     Some \<lparr>r_compName = ''c'', r_modelName = ''m'',
           r_modules = [(''t'', [(''a'', ''/x''), (''b'', [])])]\<rparr> \<and>
   Model_Equal (modelNew ''c'' ''m'' sec_a) (Some (modelNew ''c'' ''m'' sec_ab)) = Inr True \<and>
   Model_Equal (modelNew ''c'' ''m'' sec_ab) (Some (modelNew ''c'' ''m'' sec_a)) = Inr True \<and>
   m_rpc (modelNew ''c'' ''m'' sec_none) = None \<and>
   Model_Equal (modelNew ''c'' ''m'' sec_a) (Some (modelNew ''c'' ''m'' sec_none)) =
     Inl NilDereference"
  by (simp add: modelNew_def rpcNew_def Section_Keys_def rpcNew_step_def HasPrefix_def
      Model_Equal_def dyn_Equal_def configNew_def stateNew_def Section_Key_def sec_a_def
      sec_ab_def sec_none_def config_Equal_def state_Equal_def rpc_Equal_def modules_in_def
      index0_def Let_def)

section \<open>Reconciliation\<close>

lemma readAllComponents_step_frame:
  assumes "readAllComponents_step fs dir fi (cs, w) = (cs', w')"
  shows "trace w' = trace w \<and> fresh w \<le> fresh w' \<and>
         (\<forall>a. a < fresh w \<longrightarrow> agents w' a = agents w a) \<and>
         (wf_map cs \<longrightarrow> wf_map cs')"
  using assms
  by (auto simp: readAllComponents_step_def createVCIComponent_def newComponent_def Let_def
      wf_map_update split: if_splits sum.splits)

lemma readAllComponents_fold_frame:
  "fold (readAllComponents_step fs dir) entries (cs, w) = (cs', w') \<Longrightarrow>
   trace w' = trace w \<and> fresh w \<le> fresh w' \<and>
   (\<forall>a. a < fresh w \<longrightarrow> agents w' a = agents w a) \<and>
   (wf_map cs \<longrightarrow> wf_map cs')"
proof (induction entries arbitrary: cs w)
  case Nil
  then show ?case by simp
next
  case (Cons fi entries)
  obtain cs1 w1 where s: "readAllComponents_step fs dir fi (cs, w) = (cs1, w1)"
    by (cases "readAllComponents_step fs dir fi (cs, w)")
  from Cons.prems s have "fold (readAllComponents_step fs dir) entries (cs1, w1) = (cs', w')"
    by simp
  from Cons.IH [OF this] readAllComponents_step_frame [OF s] show ?case
    by auto
qed

lemma readAllComponents_frame:
  assumes "readAllComponents fs dir w = (cs', w')"
  shows "trace w' = trace w \<and> fresh w \<le> fresh w' \<and>
         (\<forall>a. a < fresh w \<longrightarrow> agents w' a = agents w a) \<and> wf_map cs'"
proof (cases "ReadDir fs dir")
  case None
  with assms show ?thesis by (auto simp: readAllComponents_def wf_map_def)
next
  case (Some entries)
  with assms have "fold (readAllComponents_step fs dir) entries ([], w) = (cs', w')"
    by (simp add: readAllComponents_def)
  from readAllComponents_fold_frame [OF this] show ?thesis by (simp add: wf_map_def)
qed

lemma swapper_fold:
  "list_all (unchanged old) xs \<Longrightarrow>
   \<exists>t'. range_fold (swapper_step old) xs t = Inr t' \<and>
        (wf_map t \<longrightarrow> wf_map t') \<and>
        (\<forall>n. map_of t' n = (if n \<in> fst ` set xs then map_of old n else map_of t n))"
proof (induction xs arbitrary: t)
  case Nil
  then show ?case by simp
next
  case (Cons x xs)
  obtain name c where x: "x = (name, c)" by (cases x)
  from Cons.prems x obtain oldComp where o: "map_of old name = Some oldComp"
    and eq: "dyn_Equal Component_Equal (Some (meta c)) (Some (meta oldComp)) = Inr True"
    by (auto simp: unchanged_def split: option.splits)
  have step: "swapper_step old (name, c) t = Inr (AList.update name oldComp t)"
    using o eq by (simp add: swapper_step_def)
  from Cons.prems have "list_all (unchanged old) xs" by simp
  from Cons.IH [OF this, of "AList.update name oldComp t"] obtain t' where
    f: "range_fold (swapper_step old) xs (AList.update name oldComp t) = Inr t'"
    and w: "wf_map (AList.update name oldComp t) \<longrightarrow> wf_map t'"
    and l: "\<And>n. map_of t' n =
              (if n \<in> fst ` set xs then map_of old n
               else map_of (AList.update name oldComp t) n)"
    by blast
  have "range_fold (swapper_step old) (x # xs) t = Inr t'"
    by (simp add: x step f)
  moreover have "wf_map t \<longrightarrow> wf_map t'"
    using w by (simp add: wf_map_update)
  moreover have "map_of t' n =
      (if n \<in> fst ` set (x # xs) then map_of old n else map_of t n)" for n
    using o by (auto simp: l x update_conv')
  ultimately show ?case by blast
qed

lemma sync_removed_none:
  "\<forall>n \<in> fst ` set xs. map_of new n \<noteq> None \<Longrightarrow> fold (sync_removed new) xs acts = acts"
  by (induction xs arbitrary: acts) (auto simp: sync_removed_def)

lemma sync_changed_none:
  "list_all (unchanged old) xs \<Longrightarrow> range_fold (sync_changed old) xs acts = Inr acts"
  by (induction xs arbitrary: acts) (auto simp: sync_changed_def unchanged_def split: option.splits)

lemma Component_Equal_refl:
  "wf_Component c \<Longrightarrow> dyn_Equal Component_Equal (Some c) (Some c) = Inr True"
  by (simp add: dyn_Equal_def Component_Equal_same)

text \<open>
  C2. A filesystem event arrives while the directory holds the definitions the old
  snapshot was built from: the names read are the names of the old snapshot, and every
  component read equals its predecessor. Then the event is handled without a panic, the
  new snapshot maps every name to the runtime component the old one mapped it to (the
  same bus registration and the same agent), the watch collects no action, nothing is run
  or stopped, and every running flag is what it was. The old components are those the
  daemon built: their maps are Go maps and their agents were allocated before the event.
\<close>

theorem reconcile_unchanged:
  assumes old: "list_all (\<lambda>(n, c). wf_Component (meta c) \<and> started c < fresh w) old"
    and names: "fst ` set (fst (readAllComponents fs dir w)) = fst ` set old"
    and same: "list_all (unchanged old) (fst (readAllComponents fs dir w))"
  shows "\<exists>new w'. handleEvent e fs dir old w = Inr (new, w') \<and>
           swapper fs dir old w = Inr (new, w') \<and>
           map_of new = map_of old \<and>
           sync_actions old new = Inr [] \<and>
           trace w' = trace w \<and>
           list_all (\<lambda>(n, c). agents w' (started c) = agents w (started c)) old"
proof -
  obtain new0 w1 where r: "readAllComponents fs dir w = (new0, w1)"
    by (cases "readAllComponents fs dir w")
  from readAllComponents_frame [OF r] have tr: "trace w1 = trace w"
    and ag: "\<And>a. a < fresh w \<Longrightarrow> agents w1 a = agents w a" and wf0: "wf_map new0"
    by auto
  from names r have nm: "fst ` set new0 = fst ` set old" by simp
  from same r have sm: "list_all (unchanged old) new0" by simp
  from swapper_fold [OF sm, of new0] wf0 obtain new where
    f: "range_fold (swapper_step old) new0 new0 = Inr new" and wfn: "wf_map new"
    and l: "\<And>n. map_of new n = (if n \<in> fst ` set new0 then map_of old n else map_of new0 n)"
    by blast
  have sw: "swapper fs dir old w = Inr (new, w1)"
    by (simp add: swapper_def r f)
  have look: "map_of new n = map_of old n" for n
  proof (cases "n \<in> fst ` set old")
    case True
    with nm show ?thesis by (simp add: l)
  next
    case False
    with nm have "map_of new0 n = None" "map_of old n = None"
      by (simp_all add: map_of_eq_None_iff)
    with False nm show ?thesis by (simp add: l)
  qed
  have rem: "fold (sync_removed new) old [] = []"
  proof (rule sync_removed_none, rule ballI)
    fix n assume "n \<in> fst ` set old"
    then have "map_of old n \<noteq> None" by (simp add: map_of_eq_None_iff)
    then show "map_of new n \<noteq> None" by (simp add: look)
  qed
  have unch: "list_all (unchanged old) new"
    unfolding list_all_iff
  proof
    fix x assume x: "x \<in> set new"
    obtain n c where nc: "x = (n, c)" by (cases x)
    from x nc wfn have "map_of new n = Some c" by (simp add: wf_map_def)
    then have o: "map_of old n = Some c" by (simp add: look)
    then have "(n, c) \<in> set old" by (rule map_of_SomeD)
    with old have "wf_Component (meta c)" by (auto simp: list_all_iff)
    then show "unchanged old x"
      by (simp add: unchanged_def nc o Component_Equal_refl)
  qed
  have acts: "sync_actions old new = Inr []"
    by (simp add: sync_actions_def rem sync_changed_none [OF unch])
  have he: "handleEvent e fs dir old w = Inr (new, w1)"
    by (simp add: handleEvent_def sw syncComponents_def acts)
  have flags: "list_all (\<lambda>(n, c). agents w1 (started c) = agents w (started c)) old"
    using old ag by (auto simp: list_all_iff)
  have "map_of new = map_of old" using look by (rule ext)
  with he sw acts tr flags show ?thesis by blast
qed

lemma readAll_fs0:
  "readAllComponents fs0 ''/i'' world1 =
     ([(''c'', \<lparr>meta = compA, vci = 2, started = 3\<rparr>)],
      \<lparr>trace = [], agents = (\<lambda>a. a = 1)(3 := False), fresh = 4\<rparr>)"
proof -
  have "ReadDir fs0 ''/i'' = Some [(''a'', False)]" by (simp add: fs0_def)
  then show ?thesis
    by (simp add: readAllComponents_def readAllComponents_step_def New_file0
        createVCIComponent_def newComponent_def world1_def compA_def)
qed

lemma wf_compA: "wf_Component compA"
  using New_file0 by (rule wf_New)

theorem reconcile_unchanged_witness:
  "list_all (\<lambda>(n, c). wf_Component (meta c) \<and> started c < fresh world1) [(''c'', rtA)] \<and>
   fst ` set (fst (readAllComponents fs0 ''/i'' world1)) = fst ` set [(''c'', rtA)] \<and>
   list_all (unchanged [(''c'', rtA)]) (fst (readAllComponents fs0 ''/i'' world1)) \<and>
   agents world1 (started rtA) \<and>
   (\<exists>new w'. handleEvent env_fail fs0 ''/i'' [(''c'', rtA)] world1 = Inr (new, w') \<and>
      swapper fs0 ''/i'' [(''c'', rtA)] world1 = Inr (new, w') \<and>
      map_of new = map_of [(''c'', rtA)] \<and>
      sync_actions [(''c'', rtA)] new = Inr [] \<and>
      trace w' = trace world1 \<and>
      list_all (\<lambda>(n, c). agents w' (started c) = agents world1 (started c)) [(''c'', rtA)])"
proof -
  have 1: "list_all (\<lambda>(n, c). wf_Component (meta c) \<and> started c < fresh world1) [(''c'', rtA)]"
    by (simp add: rtA_def wf_compA world1_def)
  have 2: "fst ` set (fst (readAllComponents fs0 ''/i'' world1)) = fst ` set [(''c'', rtA)]"
    by (simp add: readAll_fs0)
  have 3: "list_all (unchanged [(''c'', rtA)]) (fst (readAllComponents fs0 ''/i'' world1))"
    by (simp add: readAll_fs0 unchanged_def rtA_def Component_Equal_refl wf_compA)
  have 4: "agents world1 (started rtA)" by (simp add: world1_def rtA_def)
  from 1 2 3 4 reconcile_unchanged [OF 1 2 3, of env_fail] show ?thesis by blast
qed

end
